theory Spec2Isabelle
  imports Complex_Main "HOL-Library.Log_Nat"
begin

section \<open>Python floats\<close>

text \<open>
  Amounts, the budget and the running total are Python \<^verbatim>\<open>float\<close>s, that is IEEE-754
  binary64 values. A float is modelled by the rational number it denotes, or by one of
  the three special values. The two zeros are identified: the modelled code only adds,
  subtracts, multiplies, compares and truncates floats, and none of these tells
  \<^verbatim>\<open>-0.0\<close> from \<^verbatim>\<open>0.0\<close>.
\<close>

datatype pyfloat = Fin rat | PInf | NInf | NaN

definition pow2 :: "int \<Rightarrow> rat" where
  "pow2 k = (if 0 \<le> k then 2 ^ nat k else 1 / 2 ^ nat (- k))"

text \<open>\<open>ilog2 x\<close> is the binary exponent of a positive rational: \<open>2^e \<le> x < 2^(e+1)\<close>.\<close>

definition ilog2 :: "rat \<Rightarrow> int" where
  "ilog2 x =
     (if 1 \<le> x then int (floorlog 2 (nat \<lfloor>x\<rfloor>)) - 1
      else (let y = 1 / x; k = int (floorlog 2 (nat \<lfloor>y\<rfloor>)) - 1
            in if y = pow2 k then - k else - k - 1))"

definition round_half_even :: "rat \<Rightarrow> int" where
  "round_half_even q =
     (let f = \<lfloor>q\<rfloor>; r = q - of_int f
      in if r < 1 / 2 then f else if 1 / 2 < r then f + 1
         else if even f then f else f + 1)"

text \<open>
  Rounding of an exact result to binary64, to nearest with ties to even: 53 significant
  bits, least normal exponent \<open>-1022\<close> (below it the spacing stays \<open>2^-1074\<close>), and
  overflow to an infinity when the rounded magnitude reaches \<open>2^1024\<close>.
\<close>

definition round64 :: "rat \<Rightarrow> pyfloat" where
  "round64 x =
     (if x = 0 then Fin 0
      else (let a = \<bar>x\<bar>;
                e = max (ilog2 a) (- 1022);
                u = pow2 (e - 52);
                r = of_int (round_half_even (a / u)) * u
            in if pow2 1024 \<le> r then (if 0 < x then PInf else NInf)
               else Fin (if 0 < x then r else - r)))"

fun fneg :: "pyfloat \<Rightarrow> pyfloat" where
  "fneg (Fin a) = Fin (- a)"
| "fneg PInf = NInf"
| "fneg NInf = PInf"
| "fneg NaN = NaN"

fun fadd :: "pyfloat \<Rightarrow> pyfloat \<Rightarrow> pyfloat" where
  "fadd (Fin a) (Fin b) = round64 (a + b)"
| "fadd NaN _ = NaN"
| "fadd _ NaN = NaN"
| "fadd PInf NInf = NaN"
| "fadd NInf PInf = NaN"
| "fadd PInf _ = PInf"
| "fadd _ PInf = PInf"
| "fadd NInf _ = NInf"
| "fadd _ NInf = NInf"

definition fsub :: "pyfloat \<Rightarrow> pyfloat \<Rightarrow> pyfloat" where
  "fsub x y = fadd x (fneg y)"

fun fmul :: "pyfloat \<Rightarrow> pyfloat \<Rightarrow> pyfloat" where
  "fmul (Fin a) (Fin b) = round64 (a * b)"
| "fmul NaN _ = NaN"
| "fmul _ NaN = NaN"
| "fmul (Fin a) PInf = (if a = 0 then NaN else if 0 < a then PInf else NInf)"
| "fmul (Fin a) NInf = (if a = 0 then NaN else if 0 < a then NInf else PInf)"
| "fmul PInf (Fin b) = (if b = 0 then NaN else if 0 < b then PInf else NInf)"
| "fmul NInf (Fin b) = (if b = 0 then NaN else if 0 < b then NInf else PInf)"
| "fmul PInf PInf = PInf"
| "fmul NInf NInf = PInf"
| "fmul PInf NInf = NInf"
| "fmul NInf PInf = NInf"

text \<open>The comparison \<^verbatim>\<open>x > y\<close>: false whenever a NaN is involved.\<close>

fun fgt :: "pyfloat \<Rightarrow> pyfloat \<Rightarrow> bool" where
  "fgt (Fin a) (Fin b) = (b < a)"
| "fgt NaN _ = False"
| "fgt _ NaN = False"
| "fgt PInf PInf = False"
| "fgt PInf _ = True"
| "fgt _ PInf = False"
| "fgt NInf _ = False"
| "fgt _ NInf = True"

text \<open>
  The builtin \<^verbatim>\<open>max(a, b)\<close> keeps its first argument unless the second is strictly
  greater.
\<close>

definition py_max :: "pyfloat \<Rightarrow> pyfloat \<Rightarrow> pyfloat" where
  "py_max a b = (if fgt b a then b else a)"

text \<open>
  Exceptions of the language and of third-party libraries (web3, requests). The errors
  of the package itself are the constructors of \<open>error\<close> below. All of them derive
  from \<^verbatim>\<open>Exception\<close> except KeyboardInterrupt and SystemExit, which derive from
  \<^verbatim>\<open>BaseException\<close> only and so pass an \<^verbatim>\<open>except Exception\<close> clause.
\<close>

datatype py_exc =
    ValueError
  | TypeError
  | AttributeError
  | OverflowError
  | ZeroDivisionError
  | JSONDecodeError
  | OtherError string
  | KeyboardInterrupt
  | SystemExit

fun is_Exception :: "py_exc \<Rightarrow> bool" where
  "is_Exception KeyboardInterrupt = False"
| "is_Exception SystemExit = False"
| "is_Exception _ = True"

text \<open>
  \<^verbatim>\<open>int(x)\<close> on a float truncates towards zero; it raises ValueError on a NaN and
  OverflowError on an infinity.
\<close>

fun py_int :: "pyfloat \<Rightarrow> py_exc + int" where
  "py_int (Fin r) = Inr (if 0 \<le> r then \<lfloor>r\<rfloor> else \<lceil>r\<rceil>)"
| "py_int NaN = Inl ValueError"
| "py_int PInf = Inl OverflowError"
| "py_int NInf = Inl OverflowError"

text \<open>
  True division \<^verbatim>\<open>a / b\<close> of two ints: the correctly rounded quotient, ZeroDivisionError
  for a zero divisor, OverflowError when the quotient is too large for a float.
\<close>

definition py_truediv :: "int \<Rightarrow> int \<Rightarrow> py_exc + pyfloat" where
  "py_truediv a b =
     (if b = 0 then Inl ZeroDivisionError
      else (case round64 (of_int a / of_int b) of
              Fin r \<Rightarrow> Inr (Fin r)
            | _ \<Rightarrow> Inl OverflowError))"

section \<open>Decoded JSON values\<close>

text \<open>
  What \<^verbatim>\<open>resp.json()\<close> returns: the Python value decoded from a JSON document. A
  dict is kept as the list of its items, whose keys are distinct, and looked up by key.
\<close>

datatype json =
    JNull
  | JBool bool
  | JInt int
  | JFloat pyfloat
  | JStr string
  | JArr "json list"
  | JObj "(string \<times> json) list"

text \<open>The truth value Python gives a decoded value, as in \<^verbatim>\<open>if not recipient\<close>.\<close>

fun truthy :: "json \<Rightarrow> bool" where
  "truthy JNull = False"
| "truthy (JBool b) = b"
| "truthy (JInt i) = (i \<noteq> 0)"
| "truthy (JFloat x) = (x \<noteq> Fin 0)"
| "truthy (JStr s) = (s \<noteq> [])"
| "truthy (JArr xs) = (xs \<noteq> [])"
| "truthy (JObj kvs) = (kvs \<noteq> [])"

text \<open>
  \<^verbatim>\<open>v.get(key, default)\<close>: only a dict has the method; on any other decoded value the
  attribute lookup raises AttributeError.
\<close>

fun py_get :: "json \<Rightarrow> string \<Rightarrow> json \<Rightarrow> py_exc + json" where
  "py_get (JObj kvs) k d = Inr (case map_of kvs k of None \<Rightarrow> d | Some v \<Rightarrow> v)"
| "py_get _ k d = Inl AttributeError"

text \<open>
  The builtin \<^verbatim>\<open>float(v)\<close>. The grammar of float literals belongs to the language,
  not to the repository: \<open>parse\<close> stands for it and gives \<open>None\<close> where
  \<^verbatim>\<open>float\<close> raises ValueError on a string. An int is converted with rounding, a bool
  is the int 0 or 1, and \<^verbatim>\<open>None\<close>, lists and dicts raise TypeError.
\<close>

fun py_float :: "(string \<Rightarrow> pyfloat option) \<Rightarrow> json \<Rightarrow> py_exc + pyfloat" where
  "py_float parse (JStr s) = (case parse s of None \<Rightarrow> Inl ValueError | Some x \<Rightarrow> Inr x)"
| "py_float parse (JFloat x) = Inr x"
| "py_float parse (JInt i) =
     (case round64 (of_int i) of Fin r \<Rightarrow> Inr (Fin r) | _ \<Rightarrow> Inl OverflowError)"
| "py_float parse (JBool b) = Inr (Fin (if b then 1 else 0))"
| "py_float parse JNull = Inl TypeError"
| "py_float parse (JArr xs) = Inl TypeError"
| "py_float parse (JObj kvs) = Inl TypeError"

section \<open>The payment handler (payment.py)\<close>

record chain_config =
  rpc_url :: string
  usdc_contract :: string
  chain_id :: int
  label :: string

definition CHAIN_CONFIGS :: "string \<Rightarrow> chain_config option" where
  "CHAIN_CONFIGS c =
     (if c = ''base'' then
        Some \<lparr>rpc_url = ''https://mainnet.base.org'',
              usdc_contract = ''0x833589fCD6eDb6E08f4c7C32D4f71b54bdA02913'',
              chain_id = 8453, label = ''Base''\<rparr>
      else if c = ''base-sepolia'' then
        Some \<lparr>rpc_url = ''https://sepolia.base.org'',
              usdc_contract = ''0x036CbD53842c5426634e7929541eC2318f3dCF7e'',
              chain_id = 84532, label = ''Base Sepolia''\<rparr>
      else if c = ''skale'' then
        Some \<lparr>rpc_url = ''https://mainnet.skalenodes.com/v1/elated-tan-skat'',
              usdc_contract = ''0x5F795bb52dAc3085f578f4877D450e2929D2F13d'',
              chain_id = 2046399126, label = ''SKALE Europa''\<rparr>
      else None)"

definition USDC_DECIMALS :: nat where
  "USDC_DECIMALS = 6"

text \<open>
  The errors a caller of the package can see. \<open>X402PaymentError\<close> is raised with two
  messages in \<^verbatim>\<open>pay\<close>: "Transaction <hash> failed on-chain (status=0)", and
  "Payment failed: <exc>" chained \<^verbatim>\<open>from exc\<close>; the payload records which, with the
  hash or the cause. \<open>X402APIError\<close> has three messages in \<^verbatim>\<open>_request\<close>: no private
  key, "402 response missing recipient address: <body>", and "API error <status>:
  <first 500 characters of the text>". \<open>X402BudgetExceededError\<close> (a subclass of
  X402PaymentError in the source) carries the four numbers its message is formatted
  from: the amount, the amount spent, the budget and the remaining budget. \<open>Raised\<close>
  is an exception of the language or of a library that propagates as it was raised.
\<close>

datatype payment_failure = FailedOnChain string | PaymentFailed py_exc

datatype api_failure =
    NoPrivateKey
  | MissingRecipient json
  | ApiError int string

datatype error =
    Raised py_exc
  | X402APIError api_failure
  | X402PaymentError payment_failure
  | X402BudgetExceededError pyfloat pyfloat pyfloat pyfloat

record handler =
  chain_key :: string
  config :: chain_config
  max_budget :: pyfloat
  total_spent :: pyfloat
  used_tx_hashes :: "string set"
  account_address :: string
  account_key :: string

text \<open>
  The ledger client is the web3 library. It is outside the repository, so each of its
  operations is a field of the environment: it answers with a value or raises. The
  fields follow the calls of \<^verbatim>\<open>__init__\<close>, \<^verbatim>\<open>get_balance\<close> and \<^verbatim>\<open>pay\<close>.
\<close>

record tx_params =
  tx_from :: string
  nonce :: int
  chainId :: int
  gas :: int
  maxFeePerGas :: int
  maxPriorityFeePerGas :: int

datatype contract_call = Transfer string int

record ledger_client =
  from_key :: "string \<Rightarrow> py_exc + string"
  to_checksum_address :: "string \<Rightarrow> py_exc + string"
  balanceOf :: "string \<Rightarrow> py_exc + int"
  get_transaction_count :: "string \<Rightarrow> py_exc + int"
  transfer :: "string \<Rightarrow> int \<Rightarrow> py_exc + contract_call"
  gas_price :: "py_exc + int"
  max_priority_fee :: "py_exc + int"
  build_transaction :: "contract_call \<Rightarrow> tx_params \<Rightarrow> py_exc + string"
  sign_transaction :: "string \<Rightarrow> string \<Rightarrow> py_exc + string"
  send_raw_transaction :: "string \<Rightarrow> py_exc + string"
  wait_for_transaction_receipt :: "string \<Rightarrow> int \<Rightarrow> py_exc + int"

text \<open>
  \<^verbatim>\<open>__init__\<close>: an unknown chain raises ValueError before anything else; the ledger
  starts with nothing spent and no transaction hash. The private key gets its
  \<^verbatim>\<open>0x\<close> prefix, and the account is derived from it by the library.
\<close>

definition X402PaymentHandler ::
  "ledger_client \<Rightarrow> string \<Rightarrow> string \<Rightarrow> pyfloat \<Rightarrow> error + handler" where
  "X402PaymentHandler w private_key chain max_budget_usdc =
     (case CHAIN_CONFIGS chain of
        None \<Rightarrow> Inl (Raised ValueError)
      | Some cfg \<Rightarrow>
          (let key = (if take 2 private_key = ''0x'' then private_key
                      else ''0x'' @ private_key)
           in case from_key w key of
                Inl e \<Rightarrow> Inl (Raised e)
              | Inr addr \<Rightarrow>
                  Inr \<lparr>chain_key = chain, config = cfg, max_budget = max_budget_usdc,
                       total_spent = Fin 0, used_tx_hashes = {},
                       account_address = addr, account_key = key\<rparr>))"

definition remaining_budget :: "handler \<Rightarrow> pyfloat" where
  "remaining_budget h = py_max (Fin 0) (fsub (max_budget h) (total_spent h))"

definition get_balance :: "ledger_client \<Rightarrow> handler \<Rightarrow> py_exc + pyfloat" where
  "get_balance w h =
     (case balanceOf w (account_address h) of
        Inl e \<Rightarrow> Inl e
      | Inr raw \<Rightarrow> py_truediv raw (10 ^ USDC_DECIMALS))"

text \<open>
  Line 178 of \<^verbatim>\<open>pay\<close>: \<^verbatim>\<open>raw_amount = int(amount * (10**USDC_DECIMALS))\<close>. The int
  \<open>10^6\<close> is converted to the float of the same value, the product is rounded, and
  \<^verbatim>\<open>int\<close> truncates it.
\<close>

definition raw_amount_of :: "pyfloat \<Rightarrow> py_exc + int" where
  "raw_amount_of amount = py_int (fmul amount (Fin (10 ^ USDC_DECIMALS)))"

text \<open>
  The calls made to the ledger client inside the \<^verbatim>\<open>try\<close> block of \<^verbatim>\<open>pay\<close>, logged
  in order. \<open>call c r k\<close> performs the call \<open>c\<close> with outcome \<open>r\<close>: an exception ends
  the block, a value is passed on to the rest \<open>k\<close>.
\<close>

datatype ledger_call =
    GetTransactionCount string
  | TransferCall string int
  | GasPrice
  | MaxPriorityFee
  | BuildTransaction contract_call tx_params
  | SignTransaction string string
  | SendRawTransaction string
  | WaitForTransactionReceipt string int

definition call ::
  "ledger_call \<Rightarrow> py_exc + 'a \<Rightarrow> ('a \<Rightarrow> ledger_call list \<times> (py_exc + 'b))
    \<Rightarrow> ledger_call list \<times> (py_exc + 'b)" where
  "call c r k =
     (case r of
        Inl e \<Rightarrow> ([c], Inl e)
      | Inr v \<Rightarrow> (case k v of (cs, out) \<Rightarrow> (c # cs, out)))"

text \<open>
  Lines 189 to 209: nonce, the transfer call, the two fee queries (the argument of
  \<^verbatim>\<open>build_transaction\<close> is evaluated before the call), building, signing, submission
  and the wait for the receipt. The result is the hash as a hex string with the
  receipt's status.
\<close>

definition submit_transfer ::
  "ledger_client \<Rightarrow> handler \<Rightarrow> string \<Rightarrow> int
    \<Rightarrow> ledger_call list \<times> (py_exc + string \<times> int)" where
  "submit_transfer w h recipient_addr raw_amount =
     call (GetTransactionCount (account_address h))
          (get_transaction_count w (account_address h)) (\<lambda>n.
     call (TransferCall recipient_addr raw_amount)
          (transfer w recipient_addr raw_amount) (\<lambda>fn.
     call GasPrice (gas_price w) (\<lambda>gp.
     call MaxPriorityFee (max_priority_fee w) (\<lambda>mpf.
     (let params = \<lparr>tx_from = account_address h, nonce = n,
                     chainId = chain_id (config h), gas = 100000,
                     maxFeePerGas = gp * 2, maxPriorityFeePerGas = mpf\<rparr>
      in
     call (BuildTransaction fn params) (build_transaction w fn params) (\<lambda>tx.
     call (SignTransaction tx (account_key h))
          (sign_transaction w tx (account_key h)) (\<lambda>signed.
     call (SendRawTransaction signed) (send_raw_transaction w signed) (\<lambda>tx_hex.
     call (WaitForTransactionReceipt tx_hex 60)
          (wait_for_transaction_receipt w tx_hex 60) (\<lambda>status.
     ([], Inr (tx_hex, status)))))))))))"

text \<open>
  \<^verbatim>\<open>pay\<close> returns the hash or raises, may update the handler, and makes ledger calls:
  the three components of the result. The budget check comes first. The conversion to
  raw units and the address checksum come before the \<^verbatim>\<open>try\<close>, so their exceptions
  leave unchanged. Inside the \<^verbatim>\<open>try\<close>, the only X402PaymentError is the one raised on
  a receipt whose status is not 1, which the first \<^verbatim>\<open>except\<close> re-raises. The second,
  \<^verbatim>\<open>except Exception\<close>, wraps an exception of the ledger client that derives from
  \<^verbatim>\<open>Exception\<close>; any other one propagates as it was raised.
\<close>

definition pay ::
  "ledger_client \<Rightarrow> handler \<Rightarrow> pyfloat \<Rightarrow> string
    \<Rightarrow> (error + string) \<times> handler \<times> ledger_call list" where
  "pay w h amount recipient =
     (if fgt (fadd (total_spent h) amount) (max_budget h) then
        (Inl (X402BudgetExceededError amount (total_spent h) (max_budget h)
                (remaining_budget h)), h, [])
      else
        (case raw_amount_of amount of
           Inl e \<Rightarrow> (Inl (Raised e), h, [])
         | Inr raw_amount \<Rightarrow>
             (case to_checksum_address w recipient of
                Inl e \<Rightarrow> (Inl (Raised e), h, [])
              | Inr recipient_addr \<Rightarrow>
                  (case submit_transfer w h recipient_addr raw_amount of
                     (cs, Inl exc) \<Rightarrow>
                       if is_Exception exc then
                         (Inl (X402PaymentError (PaymentFailed exc)), h, cs)
                       else (Inl (Raised exc), h, cs)
                   | (cs, Inr (tx_hex, status)) \<Rightarrow>
                       if status \<noteq> 1 then
                         (Inl (X402PaymentError (FailedOnChain tx_hex)), h, cs)
                       else
                         (Inr tx_hex,
                          h\<lparr>total_spent := fadd (total_spent h) amount,
                            used_tx_hashes := insert tx_hex (used_tx_hashes h)\<rparr>,
                          cs)))))"

section \<open>The API client (client.py)\<close>

record http_request =
  req_method :: string
  req_url :: string
  req_params :: "(string \<times> string) list option"
  req_json :: "json option"
  req_headers :: "(string \<times> string) list"
  req_timeout :: int

record http_response =
  status_code :: int
  json_result :: "py_exc + json"
  resp_text :: string

text \<open>
  The HTTP session is outside the repository. \<open>t n req\<close> is what the \<open>n\<close>-th call of
  \<^verbatim>\<open>session.request\<close> within one \<^verbatim>\<open>_request\<close> gives for the request \<open>req\<close>: a
  response, or an exception of the transport.
\<close>

type_synonym transport = "nat \<Rightarrow> http_request \<Rightarrow> py_exc + http_response"

record client =
  base_url :: string
  timeout :: int
  payment :: "handler option"

text \<open>What \<^verbatim>\<open>_request\<close> does to the outside, in order.\<close>

datatype event =
    Request http_request
  | Pay pyfloat string "ledger_call list"

fun is_request :: "event \<Rightarrow> bool" where
  "is_request (Request _) = True"
| "is_request (Pay _ _ _) = False"

fun is_pay :: "event \<Rightarrow> bool" where
  "is_pay (Pay _ _ _) = True"
| "is_pay (Request _) = False"

text \<open>
  Lines 104 to 120: the amount and the recipient are read from the body of the 402
  response. A missing \<^verbatim>\<open>payment_details\<close> defaults to the empty dict, a missing amount
  to the string \<^verbatim>\<open>"0"\<close>, a missing recipient to \<^verbatim>\<open>None\<close>. The recipient is tested
  first, then the amount is converted, and the logging call slices the recipient and
  appends a string to it, which raises TypeError unless it is a string (on a dict,
  recent Python versions raise KeyError instead; nothing below tells them apart).
\<close>

definition payment_instruction ::
  "(string \<Rightarrow> pyfloat option) \<Rightarrow> http_response \<Rightarrow> error + pyfloat \<times> string" where
  "payment_instruction parse resp =
     (case json_result resp of
        Inl e \<Rightarrow> Inl (Raised e)
      | Inr body \<Rightarrow>
     (case py_get body ''payment_details'' (JObj []) of
        Inl e \<Rightarrow> Inl (Raised e)
      | Inr payment_details \<Rightarrow>
     (case py_get payment_details ''amount'' (JStr ''0'') of
        Inl e \<Rightarrow> Inl (Raised e)
      | Inr amount_str \<Rightarrow>
     (case py_get payment_details ''recipient'' JNull of
        Inl e \<Rightarrow> Inl (Raised e)
      | Inr recipient \<Rightarrow>
          if \<not> truthy recipient then Inl (X402APIError (MissingRecipient body))
          else
            (case py_float parse amount_str of
               Inl e \<Rightarrow> Inl (Raised e)
             | Inr amount \<Rightarrow>
                 (case recipient of
                    JStr r \<Rightarrow> Inr (amount, r)
                  | _ \<Rightarrow> Inl (Raised TypeError)))))))"

text \<open>Lines 138 to 143: the status check and the decoding of the final response.\<close>

definition return_response :: "http_response \<Rightarrow> error + json" where
  "return_response resp =
     (if 400 \<le> status_code resp then
        Inl (X402APIError (ApiError (status_code resp) (take 500 (resp_text resp))))
      else (case json_result resp of Inl e \<Rightarrow> Inl (Raised e) | Inr j \<Rightarrow> Inr j))"

text \<open>Lines 86 to 94: the request as \<^verbatim>\<open>_request\<close> first sends it, without extra headers.\<close>

definition first_request ::
  "client \<Rightarrow> string \<Rightarrow> string \<Rightarrow> (string \<times> string) list option \<Rightarrow> json option
    \<Rightarrow> http_request" where
  "first_request c method path params json_body =
     \<lparr>req_method = method, req_url = base_url c @ path,
      req_params = params, req_json = json_body,
      req_headers = [], req_timeout = timeout c\<rparr>"

text \<open>
  \<^verbatim>\<open>_request\<close>: the result or the exception, the client afterwards (its handler may
  have recorded a payment), and the events. The retry is the first request with the
  two payment headers added.
\<close>

definition request ::
  "transport \<Rightarrow> ledger_client \<Rightarrow> (string \<Rightarrow> pyfloat option) \<Rightarrow> client
    \<Rightarrow> string \<Rightarrow> string \<Rightarrow> (string \<times> string) list option \<Rightarrow> json option
    \<Rightarrow> (error + json) \<times> client \<times> event list" where
  "request t w parse c method path params json_body =
     (let req = first_request c method path params json_body
      in case t 0 req of
           Inl e \<Rightarrow> (Inl (Raised e), c, [Request req])
         | Inr resp \<Rightarrow>
             if status_code resp = 402 then
               (case payment c of
                  None \<Rightarrow> (Inl (X402APIError NoPrivateKey), c, [Request req])
                | Some h \<Rightarrow>
                    (case payment_instruction parse resp of
                       Inl err \<Rightarrow> (Inl err, c, [Request req])
                     | Inr (amount, recipient) \<Rightarrow>
                         (case pay w h amount recipient of
                            (Inl err, h', cs) \<Rightarrow>
                              (Inl err, c\<lparr>payment := Some h'\<rparr>,
                               [Request req, Pay amount recipient cs])
                          | (Inr tx_hash, h', cs) \<Rightarrow>
                              (let req2 = req\<lparr>req_headers :=
                                     [(''X-Payment-TxHash'', tx_hash),
                                      (''X-Payment-Chain'', chain_key h')]\<rparr>;
                                   c' = c\<lparr>payment := Some h'\<rparr>;
                                   evs = [Request req, Pay amount recipient cs, Request req2]
                               in case t 1 req2 of
                                    Inl e \<Rightarrow> (Inl (Raised e), c', evs)
                                  | Inr resp2 \<Rightarrow> (return_response resp2, c', evs)))))
             else (return_response resp, c, [Request req]))"

section \<open>Sequences of payments, and a ledger client that accepts everything\<close>

text \<open>
  Successive calls of \<^verbatim>\<open>pay\<close> on one handler, each with the ledger client as it
  answers during that call: the results, each with the handler after the call.
\<close>

fun pay_seq ::
  "handler \<Rightarrow> (ledger_client \<times> pyfloat \<times> string) list \<Rightarrow> ((error + string) \<times> handler) list"
  where
  "pay_seq h [] = []"
| "pay_seq h ((w, amount, recipient) # rest) =
     (case pay w h amount recipient of (r, h', cs) \<Rightarrow> (r, h') # pay_seq h' rest)"

fun succeeded :: "(error + string) \<times> handler \<Rightarrow> bool" where
  "succeeded (Inr tx, h) = True"
| "succeeded (Inl e, h) = False"

text \<open>
  A ledger client in the manner of the mocks of the test suite: every call succeeds,
  the receipt has status 1 and the transaction hash is the one given.
\<close>

definition mock_web3 :: "string \<Rightarrow> ledger_client" where
  "mock_web3 tx_hex =
     \<lparr>from_key = (\<lambda>k. Inr ''0x1234567890123456789012345678901234567890''),
      to_checksum_address = (\<lambda>a. Inr a),
      balanceOf = (\<lambda>a. Inr 10000000),
      get_transaction_count = (\<lambda>a. Inr 42),
      transfer = (\<lambda>a n. Inr (Transfer a n)),
      gas_price = Inr 1000000000,
      max_priority_fee = Inr 1000000000,
      build_transaction = (\<lambda>f p. Inr ''tx''),
      sign_transaction = (\<lambda>tx k. Inr ''signed''),
      send_raw_transaction = (\<lambda>raw. Inr tx_hex),
      wait_for_transaction_receipt = (\<lambda>tx n. Inr 1)\<rparr>"

definition TEST_RECIPIENT_ADDRESS :: string where
  "TEST_RECIPIENT_ADDRESS = ''0x0987654321098765432109876543210987654321''"

definition TEST_WALLET_ADDRESS :: string where
  "TEST_WALLET_ADDRESS = ''0x1234567890123456789012345678901234567890''"

text \<open>A handler on Base with the given budget and amount spent, as the fixtures build it.\<close>

definition payment_handler :: "pyfloat \<Rightarrow> pyfloat \<Rightarrow> handler" where
  "payment_handler budget spent =
     \<lparr>chain_key = ''base'', config = the (CHAIN_CONFIGS ''base''),
      max_budget = budget, total_spent = spent, used_tx_hashes = {},
      account_address = TEST_WALLET_ADDRESS, account_key = ''0xaa''\<rparr>"

text \<open>
  A 402 response with the body of the test suite, an error message and the payment
  details given, and a server that answers every request with it; the client of the
  test suite that has a handler. \<open>float_literal\<close> stands for \<^verbatim>\<open>float\<close> on the three
  strings the examples below convert: \<^verbatim>\<open>float("0")\<close> is \<^verbatim>\<open>0.0\<close>, \<^verbatim>\<open>float("0.5")\<close> is
  \<^verbatim>\<open>0.5\<close> and \<^verbatim>\<open>float("invalid")\<close> raises ValueError.
\<close>

definition response_402 :: "json \<Rightarrow> http_response" where
  "response_402 payment_details =
     \<lparr>status_code = 402,
      json_result = Inr (JObj [(''error'', JStr ''Payment required''),
                               (''payment_details'', payment_details)]),
      resp_text = ''Payment required''\<rparr>"

definition always_402 :: "json \<Rightarrow> transport" where
  "always_402 payment_details = (\<lambda>n req. Inr (response_402 payment_details))"

definition x402_client_with_payment :: client where
  "x402_client_with_payment =
     \<lparr>base_url = ''https://test.example.com'', timeout = 30,
      payment = Some (payment_handler (Fin 10) (Fin 0))\<rparr>"

definition float_literal :: "string \<Rightarrow> pyfloat option" where
  "float_literal s =
     (if s = ''0'' then Some (Fin 0)
      else if s = ''0.5'' then Some (Fin (1 / 2))
      else None)"

section \<open>Facts about rounding\<close>

lemma pow2_pos: "0 < pow2 k"
  by (simp add: pow2_def)

lemma pow2_powi: "pow2 k = 2 powi k"
  by (simp add: pow2_def power_int_def field_simps)

lemma pow2_strict_mono: "j < k \<Longrightarrow> pow2 j < pow2 k"
  by (simp add: pow2_powi power_int_strict_increasing)

lemma pow2_mono: "j \<le> k \<Longrightarrow> pow2 j \<le> pow2 k"
  by (simp add: pow2_powi power_int_increasing)

lemma ilog2_bounds_ge1:
  assumes "1 \<le> x"
  shows "pow2 (ilog2 x) \<le> x \<and> x < pow2 (ilog2 x + 1)"
proof -
  define n where "n = nat \<lfloor>x\<rfloor>"
  define fl where "fl = floorlog 2 n"
  have n1: "1 \<le> n" using assms by (simp add: n_def le_nat_iff)
  then have b: "2 ^ (fl - 1) \<le> n" "n < 2 ^ fl"
    using floorlog_bounds [of n 2] by (simp_all add: fl_def)
  have flpos: "0 < fl" using b(2) n1 by (cases fl) auto
  have e: "ilog2 x = int fl - 1" using assms by (simp add: ilog2_def n_def fl_def)
  have nx: "of_nat n \<le> x" "x < of_nat n + 1"
    using assms by (simp_all add: n_def) linarith+
  have p1: "pow2 (int fl - 1) = 2 ^ (fl - 1)"
    using flpos by (simp add: pow2_def nat_diff_distrib')
  have p2: "pow2 (int fl - 1 + 1) = 2 ^ fl" by (simp add: pow2_def)
  have "(2::rat) ^ (fl - 1) \<le> of_nat n"
    using b(1) by (metis of_nat_le_iff of_nat_numeral of_nat_power)
  moreover have "(of_nat n :: rat) + 1 \<le> 2 ^ fl"
  proof -
    have "n + 1 \<le> 2 ^ fl" using b(2) by simp
    then have "(of_nat (n + 1) :: rat) \<le> of_nat (2 ^ fl)" by (simp only: of_nat_le_iff)
    then show ?thesis by simp
  qed
  ultimately have "pow2 (int fl - 1) \<le> x" "x < pow2 (int fl - 1 + 1)"
    using nx unfolding p1 p2 by linarith+
  then show ?thesis unfolding e by simp
qed

lemma ilog2_bounds_lt1:
  assumes "0 < x" "x < 1"
  shows "pow2 (ilog2 x) \<le> x \<and> x < pow2 (ilog2 x + 1)"
proof -
  define y where "y = 1 / x"
  have y1: "1 \<le> y" using assms by (simp add: y_def)
  define k where "k = int (floorlog 2 (nat \<lfloor>y\<rfloor>)) - 1"
  have k: "k = ilog2 y" using y1 by (simp add: ilog2_def k_def)
  have bnd: "pow2 k \<le> y" "y < pow2 (k + 1)"
    using ilog2_bounds_ge1 [OF y1] by (simp_all add: k)
  have xy: "x = 1 / y" using assms by (simp add: y_def)
  have inv: "pow2 (- j) = 1 / pow2 j" for j
    by (simp add: pow2_powi power_int_minus field_simps)
  have e: "ilog2 x = (if y = pow2 k then - k else - k - 1)"
    using assms by (simp add: ilog2_def y_def k_def Let_def)
  show ?thesis
  proof (cases "y = pow2 k")
    case True
    then have "x = pow2 (- k)" by (simp add: xy inv)
    moreover have "pow2 (- k) < pow2 (- k + 1)" by (rule pow2_strict_mono) simp
    moreover have "ilog2 x = - k" using True by (simp add: e)
    ultimately show ?thesis by simp
  next
    case False
    then have lt: "pow2 k < y" using bnd(1) by simp
    have ypos: "0 < y" using y1 by simp
    have "x < 1 / pow2 k"
      unfolding xy using lt pow2_pos [of k] ypos by (simp add: field_simps)
    moreover have "1 / pow2 (k + 1) < x"
      unfolding xy using bnd(2) pow2_pos [of "k + 1"] ypos by (simp add: field_simps)
    moreover have "pow2 (- k - 1) = 1 / pow2 (k + 1)" using inv [of "k + 1"] by simp
    moreover have "pow2 (- k - 1 + 1) = 1 / pow2 k" using inv [of k] by simp
    moreover have "ilog2 x = - k - 1" using False by (simp add: e)
    ultimately show ?thesis by simp
  qed
qed

lemma ilog2_bounds: "0 < x \<Longrightarrow> pow2 (ilog2 x) \<le> x \<and> x < pow2 (ilog2 x + 1)"
  using ilog2_bounds_ge1 [of x] ilog2_bounds_lt1 [of x] by (cases "1 \<le> x") auto

lemma ilog2_eqI:
  assumes "pow2 e \<le> x" "x < pow2 (e + 1)"
  shows "ilog2 x = e"
proof -
  have xpos: "0 < x" using assms(1) pow2_pos [of e] by simp
  note b = ilog2_bounds [OF xpos]
  have "\<not> ilog2 x < e"
  proof
    assume "ilog2 x < e"
    then have "pow2 (ilog2 x + 1) \<le> pow2 e" by (intro pow2_mono) simp
    then show False using b assms by simp
  qed
  moreover have "\<not> e < ilog2 x"
  proof
    assume "e < ilog2 x"
    then have "pow2 (e + 1) \<le> pow2 (ilog2 x)" by (intro pow2_mono) simp
    then show False using b assms by simp
  qed
  ultimately show ?thesis by simp
qed

text \<open>
  Rounding a positive number whose binary exponent \<open>e\<close> is known: the significand is
  \<open>x / 2^(e-52)\<close> rounded to an integer.
\<close>

lemma round64_pos_eval:
  assumes "pow2 e \<le> x" "x < pow2 (e + 1)" "- 1022 \<le> e"
    and "round_half_even (x / pow2 (e - 52)) = m"
    and "of_int m * pow2 (e - 52) < pow2 1024"
  shows "round64 x = Fin (of_int m * pow2 (e - 52))"
proof -
  have xpos: "0 < x" using assms(1) pow2_pos [of e] by simp
  have "ilog2 x = e" using assms(1,2) by (rule ilog2_eqI)
  then have e: "max (ilog2 \<bar>x\<bar>) (- 1022) = e" using xpos assms(3) by simp
  have ov: "\<not> pow2 1024 \<le> of_int m * pow2 (e - 52)" using assms(5) by simp
  show ?thesis
    unfolding round64_def Let_def e using xpos ov by (simp add: assms(4))
qed

lemma floor_rat_numeral:
  "\<lfloor>(numeral a / numeral b :: rat)\<rfloor> = numeral a div numeral b"
  by (metis floor_divide_of_int_eq of_int_numeral)

lemmas round64_simps = pow2_def round_half_even_def Let_def floor_rat_numeral

lemma round64_zero: "round64 0 = Fin 0"
  by (simp add: round64_def)

lemma round64_5_4: "round64 (5 / 4) = Fin (5 / 4)"
  using round64_pos_eval [of 0 "5 / 4" 5629499534213120] by (simp add: round64_simps)

lemma round64_half: "round64 (1 / 2) = Fin (1 / 2)"
  using round64_pos_eval [of "- 1" "1 / 2" 4503599627370496] by (simp add: round64_simps)

lemma round64_500000: "round64 500000 = Fin 500000"
  using round64_pos_eval [of 18 500000 8589934592000000] by (simp add: round64_simps)

lemma raw_amount_of_half: "raw_amount_of (Fin (1 / 2)) = Inr 500000"
  by (simp add: raw_amount_of_def USDC_DECIMALS_def round64_500000)

lemmas mock_simps = submit_transfer_def call_def mock_web3_def payment_handler_def
  CHAIN_CONFIGS_def TEST_WALLET_ADDRESS_def TEST_RECIPIENT_ADDRESS_def Let_def

lemma round_half_even_nonneg: "0 \<le> q \<Longrightarrow> 0 \<le> round_half_even q"
  by (simp add: round_half_even_def Let_def)

lemma round64_cases:
  "round64 x = Fin 0 \<and> x = 0
   \<or> 0 < x \<and> (round64 x = PInf \<or> (\<exists>r\<ge>0. round64 x = Fin r))
   \<or> x < 0 \<and> (round64 x = NInf \<or> (\<exists>r\<le>0. round64 x = Fin r))"
proof -
  define u where "u = pow2 (max (ilog2 \<bar>x\<bar>) (- 1022) - 52)"
  define r where "r = of_int (round_half_even (\<bar>x\<bar> / u)) * u"
  have upos: "0 < u" by (simp add: u_def pow2_pos)
  then have "0 \<le> \<bar>x\<bar> / u" by simp
  then have "0 \<le> round_half_even (\<bar>x\<bar> / u)" by (rule round_half_even_nonneg)
  then have rpos: "0 \<le> r" using upos by (simp add: r_def)
  have eq: "x \<noteq> 0 \<Longrightarrow> round64 x =
      (if pow2 1024 \<le> r then (if 0 < x then PInf else NInf)
       else Fin (if 0 < x then r else - r))"
    by (simp add: round64_def Let_def r_def u_def)
  show ?thesis
  proof (cases "x = 0")
    case True
    then show ?thesis by (simp add: round64_def)
  next
    case False
    then show ?thesis using eq rpos by (cases "0 < x") auto
  qed
qed

lemma round64_neg_sign: "x \<le> 0 \<Longrightarrow> \<not> fgt (round64 x) (Fin 0)"
  using round64_cases [of x] by auto

section \<open>The remaining budget\<close>

text \<open>
  Claim C9. The remaining budget a handler reports is \<^verbatim>\<open>max(0.0, budget - spent)\<close>:
  it is never negative, never a NaN and never minus infinity, whatever the two fields
  hold; it is zero as soon as the amount spent exceeds the budget, as after a write to
  \<^verbatim>\<open>_total_spent\<close> from outside; and for finite fields it is the exact value
  \<open>max 0 (budget - spent)\<close> rounded to a float.
\<close>

theorem remaining_budget_never_negative:
  "\<not> fgt (Fin 0) (remaining_budget h)
   \<and> remaining_budget h \<noteq> NaN \<and> remaining_budget h \<noteq> NInf
   \<and> (fgt (total_spent h) (max_budget h) \<longrightarrow> remaining_budget h = Fin 0)
   \<and> (\<forall>b s. max_budget h = Fin b \<and> total_spent h = Fin s
        \<longrightarrow> remaining_budget h = round64 (max 0 (b - s)))"
proof -
  let ?d = "fsub (max_budget h) (total_spent h)"
  have nn: "\<not> fgt (Fin 0) (py_max (Fin 0) ?d)"
    by (cases ?d) (auto simp: py_max_def)
  have sp: "py_max (Fin 0) ?d \<noteq> NaN \<and> py_max (Fin 0) ?d \<noteq> NInf"
    by (cases ?d) (auto simp: py_max_def)
  have ex: "py_max (Fin 0) ?d = Fin 0" if "fgt (total_spent h) (max_budget h)"
  proof -
    have "\<not> fgt ?d (Fin 0)"
    proof (cases "total_spent h")
      case (Fin s)
      then show ?thesis using that round64_neg_sign [of "b - s" for b]
        by (cases "max_budget h") (auto simp: fsub_def)
    next
      case PInf
      then show ?thesis using that by (cases "max_budget h") (auto simp: fsub_def)
    next
      case NInf
      then show ?thesis using that by (cases "max_budget h") auto
    next
      case NaN
      then show ?thesis using that by simp
    qed
    then show ?thesis by (simp add: py_max_def)
  qed
  have fin: "py_max (Fin 0) ?d = round64 (max 0 (b - s))"
    if "max_budget h = Fin b" "total_spent h = Fin s" for b s
  proof (cases "s < b")
    case True
    then have m: "max 0 (b - s) = b - s" by simp
    have d: "?d = round64 (b - s)" using that by (simp add: fsub_def)
    from True have "0 < b - s" by simp
    with round64_cases [of "b - s"] show ?thesis
      unfolding d m by (auto simp: py_max_def)
  next
    case False
    then have m: "max 0 (b - s) = 0" by simp
    have d: "?d = round64 (b - s)" using that by (simp add: fsub_def)
    from False have "\<not> fgt (round64 (b - s)) (Fin 0)" by (intro round64_neg_sign) simp
    then show ?thesis unfolding d m by (simp add: py_max_def round64_def)
  qed
  show ?thesis
    unfolding remaining_budget_def using nn sp ex fin by blast
qed

theorem remaining_budget_never_negative_witness:
  "fgt (total_spent (payment_handler (Fin 10) (Fin 15)))
       (max_budget (payment_handler (Fin 10) (Fin 15)))
   \<and> max_budget (payment_handler (Fin 10) (Fin 15)) = Fin 10
   \<and> total_spent (payment_handler (Fin 10) (Fin 15)) = Fin 15
   \<and> remaining_budget (payment_handler (Fin 10) (Fin 15)) = Fin 0
   \<and> remaining_budget (payment_handler (Fin 10) (Fin 15)) = round64 (max 0 (10 - 15))"
  using remaining_budget_never_negative [of "payment_handler (Fin 10) (Fin 15)"]
  by (simp add: payment_handler_def round64_zero)

section \<open>The budget check\<close>

text \<open>
  Claim C1. When the amount spent plus the amount, as \<^verbatim>\<open>pay\<close> computes it, exceeds
  the budget, \<^verbatim>\<open>pay\<close> raises X402BudgetExceededError carrying the amount, the amount
  spent, the budget and the remaining budget; the handler is returned as it was (the
  amount spent and the set of hashes with it), and no call to the ledger client is made.
\<close>

theorem pay_budget_exceeded:
  assumes "fgt (fadd (total_spent h) amount) (max_budget h)"
  shows "pay w h amount recipient =
           (Inl (X402BudgetExceededError amount (total_spent h) (max_budget h)
                   (remaining_budget h)), h, [])"
  using assms by (simp add: pay_def)

theorem pay_budget_exceeded_witness:
  "fgt (fadd (total_spent (payment_handler (Fin 1) (Fin (3 / 4)))) (Fin (1 / 2)))
       (max_budget (payment_handler (Fin 1) (Fin (3 / 4))))
   \<and> pay (mock_web3 ''0xaa'') (payment_handler (Fin 1) (Fin (3 / 4))) (Fin (1 / 2))
        TEST_RECIPIENT_ADDRESS =
      (Inl (X402BudgetExceededError (Fin (1 / 2)) (Fin (3 / 4)) (Fin 1)
              (remaining_budget (payment_handler (Fin 1) (Fin (3 / 4))))),
       payment_handler (Fin 1) (Fin (3 / 4)), [])"
proof -
  have h: "fgt (fadd (total_spent (payment_handler (Fin 1) (Fin (3 / 4)))) (Fin (1 / 2)))
       (max_budget (payment_handler (Fin 1) (Fin (3 / 4))))"
    using round64_5_4 by (simp add: payment_handler_def)
  show ?thesis
    using h pay_budget_exceeded [OF h, of "mock_web3 ''0xaa''" TEST_RECIPIENT_ADDRESS]
    by (simp add: payment_handler_def)
qed

section \<open>The receipt\<close>




section \<open>Exceptions of the ledger client\<close>

text \<open>
  The ledger calls of \<^verbatim>\<open>pay\<close> end with the exception \<open>exc\<close> exactly when one of
  the calls raises it, all the calls before it having returned.
\<close>

lemma submit_transfer_raises_iff:
  "snd (submit_transfer w h addr raw) = Inl exc \<longleftrightarrow>
     get_transaction_count w (account_address h) = Inl exc
   \<or> (\<exists>n. get_transaction_count w (account_address h) = Inr n \<and>
        (transfer w addr raw = Inl exc
       \<or> (\<exists>fn. transfer w addr raw = Inr fn \<and>
            (gas_price w = Inl exc
           \<or> (\<exists>gp. gas_price w = Inr gp \<and>
                (max_priority_fee w = Inl exc
               \<or> (\<exists>mpf. max_priority_fee w = Inr mpf \<and>
                    (let params = \<lparr>tx_from = account_address h, nonce = n,
                                    chainId = chain_id (config h), gas = 100000,
                                    maxFeePerGas = gp * 2, maxPriorityFeePerGas = mpf\<rparr>
                     in build_transaction w fn params = Inl exc
                      \<or> (\<exists>tx. build_transaction w fn params = Inr tx \<and>
                           (sign_transaction w tx (account_key h) = Inl exc
                          \<or> (\<exists>signed. sign_transaction w tx (account_key h) = Inr signed \<and>
                               (send_raw_transaction w signed = Inl exc
                              \<or> (\<exists>tx_hex. send_raw_transaction w signed = Inr tx_hex \<and>
                                   wait_for_transaction_receipt w tx_hex 60 = Inl exc)))))))))))))"
  by (auto simp: submit_transfer_def call_def Let_def split: sum.splits prod.splits)

text \<open>
  Claim C8, as the code has it. Inside the \<^verbatim>\<open>try\<close> block of \<^verbatim>\<open>pay\<close>, that is once
  the budget check has passed, the amount has been converted and the recipient address
  checksummed, an exception deriving from \<^verbatim>\<open>Exception\<close> that a call to the ledger
  client raises (nonce, transfer call, fees, building, signing, submission, wait for
  the receipt) comes out of \<^verbatim>\<open>pay\<close> as X402PaymentError "Payment failed" with that
  exception as its cause, never as it was raised; the handler is unchanged.
\<close>

theorem pay_wraps_ledger_exceptions:
  assumes "\<not> fgt (fadd (total_spent h) amount) (max_budget h)"
    and "raw_amount_of amount = Inr raw"
    and "to_checksum_address w recipient = Inr addr"
    and "submit_transfer w h addr raw = (cs, Inl exc)"
    and "is_Exception exc"
  shows "pay w h amount recipient = (Inl (X402PaymentError (PaymentFailed exc)), h, cs)"
  using assms by (simp add: pay_def)

theorem pay_wraps_ledger_exceptions_witness:
  "submit_transfer
       ((mock_web3 ''0xaa'')\<lparr>get_transaction_count :=
            (\<lambda>a. Inl (OtherError ''RPC connection failed''))\<rparr>)
       (payment_handler (Fin 10) (Fin 0)) TEST_RECIPIENT_ADDRESS 500000
     = ([GetTransactionCount TEST_WALLET_ADDRESS], Inl (OtherError ''RPC connection failed''))
   \<and> is_Exception (OtherError ''RPC connection failed'')
   \<and> pay ((mock_web3 ''0xaa'')\<lparr>get_transaction_count :=
            (\<lambda>a. Inl (OtherError ''RPC connection failed''))\<rparr>)
         (payment_handler (Fin 10) (Fin 0)) (Fin (1 / 2)) TEST_RECIPIENT_ADDRESS
     = (Inl (X402PaymentError (PaymentFailed (OtherError ''RPC connection failed''))),
        payment_handler (Fin 10) (Fin 0), [GetTransactionCount TEST_WALLET_ADDRESS])"
proof -
  let ?h = "payment_handler (Fin 10) (Fin 0)"
  let ?w = "(mock_web3 ''0xaa'')\<lparr>get_transaction_count :=
            (\<lambda>a. Inl (OtherError ''RPC connection failed''))\<rparr>"
  have a: "\<not> fgt (fadd (total_spent ?h) (Fin (1 / 2))) (max_budget ?h)"
    by (simp add: payment_handler_def round64_half)
  have b: "raw_amount_of (Fin (1 / 2)) = Inr 500000" by (rule raw_amount_of_half)
  have c: "to_checksum_address ?w TEST_RECIPIENT_ADDRESS = Inr TEST_RECIPIENT_ADDRESS"
    by (simp add: mock_web3_def)
  have d: "submit_transfer ?w ?h TEST_RECIPIENT_ADDRESS 500000
             = ([GetTransactionCount TEST_WALLET_ADDRESS],
                Inl (OtherError ''RPC connection failed''))"
    by (simp add: mock_simps)
  have e: "is_Exception (OtherError ''RPC connection failed'')" by simp
  from pay_wraps_ledger_exceptions [OF a b c d e] d e show ?thesis by blast
qed

lemma pay_propagates_other_exceptions:
  assumes "\<not> fgt (fadd (total_spent h) amount) (max_budget h)"
    and "raw_amount_of amount = Inr raw"
    and "to_checksum_address w recipient = Inr addr"
    and "submit_transfer w h addr raw = (cs, Inl exc)"
    and "\<not> is_Exception exc"
  shows "pay w h amount recipient = (Inl (Raised exc), h, cs)"
  using assms by (simp add: pay_def)

text \<open>
  Not every exception is wrapped. A KeyboardInterrupt arriving during the wait for the
  receipt, after the transaction was sent, passes \<^verbatim>\<open>except Exception\<close> and leaves
  \<^verbatim>\<open>pay\<close> as it was raised.
\<close>

theorem pay_propagates_keyboard_interrupt:
  "pay ((mock_web3 ''0xaa'')\<lparr>wait_for_transaction_receipt :=
            (\<lambda>tx n. Inl KeyboardInterrupt)\<rparr>)
       (payment_handler (Fin 10) (Fin 0)) (Fin (1 / 2)) TEST_RECIPIENT_ADDRESS
   = (Inl (Raised KeyboardInterrupt), payment_handler (Fin 10) (Fin 0),
      [GetTransactionCount TEST_WALLET_ADDRESS,
       TransferCall TEST_RECIPIENT_ADDRESS 500000, GasPrice, MaxPriorityFee,
       BuildTransaction (Transfer TEST_RECIPIENT_ADDRESS 500000)
         \<lparr>tx_from = TEST_WALLET_ADDRESS, nonce = 42, chainId = 8453, gas = 100000,
            maxFeePerGas = 2000000000, maxPriorityFeePerGas = 1000000000\<rparr>,
       SignTransaction ''tx'' ''0xaa'', SendRawTransaction ''signed'',
       WaitForTransactionReceipt ''0xaa'' 60])"
proof -
  let ?h = "payment_handler (Fin 10) (Fin 0)"
  let ?w = "(mock_web3 ''0xaa'')\<lparr>wait_for_transaction_receipt :=
            (\<lambda>tx n. Inl KeyboardInterrupt)\<rparr>"
  have a: "\<not> fgt (fadd (total_spent ?h) (Fin (1 / 2))) (max_budget ?h)"
    by (simp add: payment_handler_def round64_half)
  have c: "to_checksum_address ?w TEST_RECIPIENT_ADDRESS = Inr TEST_RECIPIENT_ADDRESS"
    by (simp add: mock_web3_def)
  have d: "submit_transfer ?w ?h TEST_RECIPIENT_ADDRESS 500000
     = ([GetTransactionCount TEST_WALLET_ADDRESS,
       TransferCall TEST_RECIPIENT_ADDRESS 500000, GasPrice, MaxPriorityFee,
       BuildTransaction (Transfer TEST_RECIPIENT_ADDRESS 500000)
         \<lparr>tx_from = TEST_WALLET_ADDRESS, nonce = 42, chainId = 8453, gas = 100000,
            maxFeePerGas = 2000000000, maxPriorityFeePerGas = 1000000000\<rparr>,
       SignTransaction ''tx'' ''0xaa'', SendRawTransaction ''signed'',
       WaitForTransactionReceipt ''0xaa'' 60], Inl KeyboardInterrupt)"
    by (simp add: mock_simps)
  have e: "\<not> is_Exception KeyboardInterrupt" by simp
  show ?thesis
    by (rule pay_propagates_other_exceptions [OF a raw_amount_of_half c d e])
qed

section \<open>Sequences of payments\<close>

lemma round64_3_4: "round64 (3 / 4) = Fin (3 / 4)"
  using round64_pos_eval [of "- 1" "3 / 4" 6755399441055744]
  by (simp add: round64_simps)

lemma round64_250000: "round64 250000 = Fin 250000"
  using round64_pos_eval [of 17 250000 8589934592000000] by (simp add: round64_simps)

lemma raw_amount_of_quarter: "raw_amount_of (Fin (1 / 4)) = Inr 250000"
  by (simp add: raw_amount_of_def USDC_DECIMALS_def round64_250000)

text \<open>The floats written \<^verbatim>\<open>0.1\<close> and \<^verbatim>\<open>0.2\<close> in Python, and their float sum.\<close>

lemma round64_tenth:
  "round64 (3602879701896397 / 36028797018963968) = Fin (3602879701896397 / 36028797018963968)"
  using round64_pos_eval [of "- 4" "3602879701896397 / 36028797018963968" 7205759403792794]
  by (simp add: round64_simps)

lemma fadd_tenth_fifth:
  "fadd (Fin (3602879701896397 / 36028797018963968)) (Fin (3602879701896397 / 18014398509481984))
     = Fin (1351079888211149 / 4503599627370496)"
  using round64_pos_eval [of "- 2"
      "3602879701896397 / 36028797018963968 + 3602879701896397 / 18014398509481984"
      5404319552844596]
  by (simp add: round64_simps)

lemma raw_amount_of_tenth:
  "raw_amount_of (Fin (3602879701896397 / 36028797018963968)) = Inr 100000"
  using round64_pos_eval [of 16 "3602879701896397 / 36028797018963968 * 1000000"
      6871947673600000]
  by (simp add: raw_amount_of_def USDC_DECIMALS_def round64_simps)

lemma raw_amount_of_fifth:
  "raw_amount_of (Fin (3602879701896397 / 18014398509481984)) = Inr 200000"
  using round64_pos_eval [of 17 "3602879701896397 / 18014398509481984 * 1000000"
      6871947673600000]
  by (simp add: raw_amount_of_def USDC_DECIMALS_def round64_simps)

lemma X402PaymentHandler_mock:
  "X402PaymentHandler (mock_web3 tx) ''aa'' ''base'' budget = Inr (payment_handler budget (Fin 0))"
  by (simp add: X402PaymentHandler_def CHAIN_CONFIGS_def mock_web3_def payment_handler_def
      TEST_WALLET_ADDRESS_def)

lemma pay_seq_mock:
  assumes "\<not> fgt (fadd (total_spent h) amount) (max_budget h)"
    and "raw_amount_of amount = Inr raw"
  shows "pay_seq h ((mock_web3 tx, amount, r) # rest) =
           (Inr tx, h\<lparr>total_spent := fadd (total_spent h) amount,
                      used_tx_hashes := insert tx (used_tx_hashes h)\<rparr>)
           # pay_seq (h\<lparr>total_spent := fadd (total_spent h) amount,
                         used_tx_hashes := insert tx (used_tx_hashes h)\<rparr>) rest"
  using assms by (simp add: pay_def submit_transfer_def call_def mock_web3_def Let_def)

lemma pay_success:
  assumes "pay w h amount recipient = (Inr tx, h', cs)"
  shows "total_spent h' = fadd (total_spent h) amount"
    and "max_budget h' = max_budget h"
    and "\<not> fgt (fadd (total_spent h) amount) (max_budget h)"
    and "used_tx_hashes h' = insert tx (used_tx_hashes h)"
  using assms by (auto simp: pay_def split: if_splits sum.splits prod.splits)

lemma length_pay_seq: "length (pay_seq h calls) = length calls"
  by (induction calls arbitrary: h) (auto split: prod.splits)

lemma pay_seq_states:
  assumes "list_all succeeded (pay_seq h calls)" and "k < length calls"
  shows "total_spent (snd (pay_seq h calls ! k)) =
           foldl fadd (total_spent h) (map (fst \<circ> snd) (take (Suc k) calls))
         \<and> \<not> fgt (total_spent (snd (pay_seq h calls ! k))) (max_budget h)
         \<and> max_budget (snd (pay_seq h calls ! k)) = max_budget h"
  using assms
proof (induction calls arbitrary: h k)
  case Nil
  then show ?case by simp
next
  case (Cons c rest)
  obtain w amount recipient where c: "c = (w, amount, recipient)" by (cases c) auto
  obtain r h' cs where p: "pay w h amount recipient = (r, h', cs)"
    by (cases "pay w h amount recipient") auto
  have seq: "pay_seq h (c # rest) = (r, h') # pay_seq h' rest" by (simp add: c p)
  from Cons.prems(1) have ok: "succeeded (r, h')" and rest: "list_all succeeded (pay_seq h' rest)"
    by (simp_all add: seq)
  from ok obtain tx where r: "r = Inr tx" by (cases r) auto
  note s = pay_success [OF p [unfolded r]]
  show ?case
  proof (cases k)
    case 0
    then show ?thesis unfolding seq using s by (simp add: c)
  next
    case (Suc j)
    with Cons.prems(2) have j: "j < length rest" by simp
    from Cons.IH [OF rest j] have
      ih1: "total_spent (snd (pay_seq h' rest ! j)) =
              foldl fadd (total_spent h') (map (fst \<circ> snd) (take (Suc j) rest))"
      and ih2: "\<not> fgt (total_spent (snd (pay_seq h' rest ! j))) (max_budget h')"
      and ih3: "max_budget (snd (pay_seq h' rest ! j)) = max_budget h'"
      by blast+
    have n: "pay_seq h (c # rest) ! k = pay_seq h' rest ! j" by (simp add: seq Suc)
    have f: "foldl fadd (total_spent h) (map (fst \<circ> snd) (take (Suc k) (c # rest)))
               = foldl fadd (total_spent h') (map (fst \<circ> snd) (take (Suc j) rest))"
      by (simp add: c Suc s(1))
    show ?thesis unfolding n f using ih1 ih2 ih3 s(2) by simp
  qed
qed

text \<open>
  Claim C3, as the code has it. On a handler fresh from the constructor, after each
  call of a sequence of calls of \<^verbatim>\<open>pay\<close> that all return a hash, the amount spent
  is the float sum of the amounts paid so far, added one by one from \<^verbatim>\<open>0.0\<close> in the
  order of the calls, each addition rounded to the nearest float; it is never greater
  than the budget, and the budget is the one given to the constructor.
\<close>

theorem total_spent_is_float_sum:
  assumes "X402PaymentHandler w0 private_key chain budget = Inr h0"
    and "list_all succeeded (pay_seq h0 calls)"
  shows "total_spent h0 = Fin 0 \<and> max_budget h0 = budget
         \<and> (\<forall>k<length calls.
               total_spent (snd (pay_seq h0 calls ! k)) =
                 foldl fadd (Fin 0) (map (fst \<circ> snd) (take (Suc k) calls))
               \<and> \<not> fgt (total_spent (snd (pay_seq h0 calls ! k))) budget
               \<and> max_budget (snd (pay_seq h0 calls ! k)) = budget)"
proof -
  from assms(1) have init: "total_spent h0 = Fin 0" "max_budget h0 = budget"
    by (auto simp: X402PaymentHandler_def Let_def split: option.splits sum.splits)
  have "total_spent (snd (pay_seq h0 calls ! k)) =
          foldl fadd (Fin 0) (map (fst \<circ> snd) (take (Suc k) calls))
        \<and> \<not> fgt (total_spent (snd (pay_seq h0 calls ! k))) budget
        \<and> max_budget (snd (pay_seq h0 calls ! k)) = budget" if "k < length calls" for k
    using pay_seq_states [OF assms(2) that] unfolding init .
  then show ?thesis using init by blast
qed

theorem total_spent_is_float_sum_witness:
  "X402PaymentHandler (mock_web3 ''0xaa'') ''aa'' ''base'' (Fin 1)
     = Inr (payment_handler (Fin 1) (Fin 0))
   \<and> list_all succeeded
        (pay_seq (payment_handler (Fin 1) (Fin 0))
           [(mock_web3 ''0xaa'', Fin (1 / 2), TEST_RECIPIENT_ADDRESS),
            (mock_web3 ''0xbb'', Fin (1 / 4), TEST_RECIPIENT_ADDRESS)])
   \<and> total_spent (snd (pay_seq (payment_handler (Fin 1) (Fin 0))
           [(mock_web3 ''0xaa'', Fin (1 / 2), TEST_RECIPIENT_ADDRESS),
            (mock_web3 ''0xbb'', Fin (1 / 4), TEST_RECIPIENT_ADDRESS)] ! 1)) = Fin (3 / 4)
   \<and> \<not> fgt (total_spent (snd (pay_seq (payment_handler (Fin 1) (Fin 0))
           [(mock_web3 ''0xaa'', Fin (1 / 2), TEST_RECIPIENT_ADDRESS),
            (mock_web3 ''0xbb'', Fin (1 / 4), TEST_RECIPIENT_ADDRESS)] ! 1))) (Fin 1)"
proof -
  let ?h = "payment_handler (Fin 1) (Fin 0)"
  let ?calls = "[(mock_web3 ''0xaa'', Fin (1 / 2), TEST_RECIPIENT_ADDRESS),
            (mock_web3 ''0xbb'', Fin (1 / 4), TEST_RECIPIENT_ADDRESS)]"
  have i: "X402PaymentHandler (mock_web3 ''0xaa'') ''aa'' ''base'' (Fin 1) = Inr ?h"
    by (rule X402PaymentHandler_mock)
  have a1: "\<not> fgt (fadd (total_spent ?h) (Fin (1 / 2))) (max_budget ?h)"
    by (simp add: payment_handler_def round64_half)
  let ?h1 = "?h\<lparr>total_spent := fadd (total_spent ?h) (Fin (1 / 2)),
                 used_tx_hashes := insert ''0xaa'' (used_tx_hashes ?h)\<rparr>"
  have a2: "\<not> fgt (fadd (total_spent ?h1) (Fin (1 / 4))) (max_budget ?h1)"
    by (simp add: payment_handler_def round64_half round64_3_4)
  have ok: "list_all succeeded (pay_seq ?h ?calls)"
    by (simp add: pay_seq_mock [OF a1 raw_amount_of_half]
        pay_seq_mock [OF a2 raw_amount_of_quarter] del: pay_seq.simps(2))
  have f: "foldl fadd (Fin 0) (map (fst \<circ> snd) (take (Suc 1) ?calls)) = Fin (3 / 4)"
    by (simp add: round64_half round64_3_4)
  have len: "(1::nat) < length ?calls" by simp
  from total_spent_is_float_sum [OF i ok] len have
    "total_spent (snd (pay_seq ?h ?calls ! 1)) =
       foldl fadd (Fin 0) (map (fst \<circ> snd) (take (Suc 1) ?calls))
     \<and> \<not> fgt (total_spent (snd (pay_seq ?h ?calls ! 1))) (Fin 1)"
    by blast
  then have "total_spent (snd (pay_seq ?h ?calls ! 1)) = Fin (3 / 4)
     \<and> \<not> fgt (total_spent (snd (pay_seq ?h ?calls ! 1))) (Fin 1)"
    unfolding f .
  with i ok show ?thesis by blast
qed

text \<open>
  The float sum is not the exact sum. With a budget of \<^verbatim>\<open>1.0\<close>, the payments
  \<^verbatim>\<open>0.1\<close> and \<^verbatim>\<open>0.2\<close> (the floats Python reads from these literals) both succeed,
  and the amount spent is then the float \<^verbatim>\<open>0.30000000000000004\<close>, which differs from
  the sum of the two amounts.
\<close>

theorem total_spent_not_exact_sum:
  "X402PaymentHandler (mock_web3 ''0xaa'') ''aa'' ''base'' (Fin 1)
     = Inr (payment_handler (Fin 1) (Fin 0))
   \<and> list_all succeeded
        (pay_seq (payment_handler (Fin 1) (Fin 0))
           [(mock_web3 ''0xaa'', Fin (3602879701896397 / 36028797018963968),
             TEST_RECIPIENT_ADDRESS),
            (mock_web3 ''0xbb'', Fin (3602879701896397 / 18014398509481984),
             TEST_RECIPIENT_ADDRESS)])
   \<and> total_spent (snd (last
        (pay_seq (payment_handler (Fin 1) (Fin 0))
           [(mock_web3 ''0xaa'', Fin (3602879701896397 / 36028797018963968),
             TEST_RECIPIENT_ADDRESS),
            (mock_web3 ''0xbb'', Fin (3602879701896397 / 18014398509481984),
             TEST_RECIPIENT_ADDRESS)])))
      \<noteq> Fin (3602879701896397 / 36028797018963968 + 3602879701896397 / 18014398509481984)"
proof -
  let ?h = "payment_handler (Fin 1) (Fin 0)"
  let ?a = "Fin (3602879701896397 / 36028797018963968)"
  let ?b = "Fin (3602879701896397 / 18014398509481984)"
  have z: "fadd (Fin 0) ?a = ?a" using round64_tenth by simp
  have a1: "\<not> fgt (fadd (total_spent ?h) ?a) (max_budget ?h)"
    by (simp add: payment_handler_def round64_tenth)
  let ?h1 = "?h\<lparr>total_spent := fadd (total_spent ?h) ?a,
                 used_tx_hashes := insert ''0xaa'' (used_tx_hashes ?h)\<rparr>"
  have t1: "total_spent ?h1 = ?a" by (simp add: payment_handler_def round64_tenth)
  have a2: "\<not> fgt (fadd (total_spent ?h1) ?b) (max_budget ?h1)"
    unfolding t1 fadd_tenth_fifth by (simp add: payment_handler_def)
  have seq: "pay_seq ?h [(mock_web3 ''0xaa'', ?a, TEST_RECIPIENT_ADDRESS),
                         (mock_web3 ''0xbb'', ?b, TEST_RECIPIENT_ADDRESS)]
      = [(Inr ''0xaa'', ?h1),
         (Inr ''0xbb'', ?h1\<lparr>total_spent := fadd (total_spent ?h1) ?b,
                            used_tx_hashes := insert ''0xbb'' (used_tx_hashes ?h1)\<rparr>)]"
    by (simp only: pay_seq_mock [OF a1 raw_amount_of_tenth]
        pay_seq_mock [OF a2 raw_amount_of_fifth] pay_seq.simps(1))
  have fin: "fadd (total_spent ?h1) ?b
      \<noteq> Fin (3602879701896397 / 36028797018963968 + 3602879701896397 / 18014398509481984)"
    unfolding t1 fadd_tenth_fifth by simp
  show ?thesis
    unfolding seq using fin by (simp add: X402PaymentHandler_mock)
qed

section \<open>Conversion to raw units\<close>

text \<open>
  Claim C5 at the amount \<^verbatim>\<open>0.000249\<close>, an amount with six decimal places. The float
  Python reads from that literal is \<open>2296619637176839 / 2^63\<close>. Its product with
  \<open>10^6\<close> rounds to the float just below 249, which rounds to 249 but which
  \<^verbatim>\<open>int\<close> truncates to 248: \<^verbatim>\<open>pay\<close> transfers 248 raw units. Read back by
  \<^verbatim>\<open>get_balance\<close>, 248 raw units are the float \<^verbatim>\<open>0.000248\<close>, not the amount.
\<close>

theorem raw_amount_truncates:
  "round64 (249 / 1000000) = Fin (2296619637176839 / 9223372036854775808)
   \<and> fmul (Fin (2296619637176839 / 9223372036854775808)) (Fin (10 ^ USDC_DECIMALS))
       = Fin (8760908650119167 / 35184372088832)
   \<and> round_half_even (8760908650119167 / 35184372088832) = 249
   \<and> raw_amount_of (Fin (2296619637176839 / 9223372036854775808)) = Inr 248
   \<and> get_balance ((mock_web3 ''0xaa'')\<lparr>balanceOf := (\<lambda>a. Inr 248)\<rparr>)
        (payment_handler (Fin 1) (Fin 0))
       = Inr (Fin (4574792530279969 / 18446744073709551616))
   \<and> Fin (4574792530279969 / 18446744073709551616)
       \<noteq> Fin (2296619637176839 / 9223372036854775808)"
proof -
  have r1: "round64 (249 / 1000000) = Fin (2296619637176839 / 9223372036854775808)"
    using round64_pos_eval [of "- 12" "249 / 1000000" 4593239274353678]
    by (simp add: round64_simps)
  have r2: "fmul (Fin (2296619637176839 / 9223372036854775808)) (Fin (10 ^ USDC_DECIMALS))
       = Fin (8760908650119167 / 35184372088832)"
    using round64_pos_eval [of 7 "2296619637176839 / 9223372036854775808 * 1000000"
        8760908650119167]
    by (simp add: USDC_DECIMALS_def round64_simps)
  have r3: "round_half_even (8760908650119167 / 35184372088832) = 249"
    by (simp add: round64_simps)
  have r4: "raw_amount_of (Fin (2296619637176839 / 9223372036854775808)) = Inr 248"
    unfolding raw_amount_of_def r2 by (simp add: floor_rat_numeral)
  have r5: "round64 (248 / 1000000) = Fin (4574792530279969 / 18446744073709551616)"
    using round64_pos_eval [of "- 12" "248 / 1000000" 4574792530279969]
    by (simp add: round64_simps)
  have r6: "get_balance ((mock_web3 ''0xaa'')\<lparr>balanceOf := (\<lambda>a. Inr 248)\<rparr>)
        (payment_handler (Fin 1) (Fin 0))
       = Inr (Fin (4574792530279969 / 18446744073709551616))"
    using r5 by (simp add: get_balance_def py_truediv_def USDC_DECIMALS_def mock_web3_def)
  show ?thesis using r1 r2 r3 r4 r6 by simp
qed


text \<open>The example of the claim does hold: \<^verbatim>\<open>0.05\<close> gives 50000 raw units, and back.\<close>

lemma raw_amount_example:
  "raw_amount_of (Fin (3602879701896397 / 72057594037927936)) = Inr 50000
   \<and> py_truediv 50000 (10 ^ USDC_DECIMALS) = Inr (Fin (3602879701896397 / 72057594037927936))"
proof -
  have 1: "raw_amount_of (Fin (3602879701896397 / 72057594037927936)) = Inr 50000"
    using round64_pos_eval [of 15 "3602879701896397 / 72057594037927936 * 1000000"
        6871947673600000]
    by (simp add: raw_amount_of_def USDC_DECIMALS_def round64_simps)
  have 2: "round64 (50000 / 1000000) = Fin (3602879701896397 / 72057594037927936)"
    using round64_pos_eval [of "- 5" "50000 / 1000000" 7205759403792794]
    by (simp add: round64_simps)
  show ?thesis using 1 2 by (simp add: py_truediv_def USDC_DECIMALS_def)
qed

section \<open>The 402 response\<close>

lemma py_get_not_obj: "(\<forall>kvs. v \<noteq> JObj kvs) \<Longrightarrow> py_get v k d = Inl AttributeError"
  by (cases v) auto

text \<open>The instruction once the body and the payment details are known to be dicts.\<close>

lemma payment_instruction_obj:
  assumes "json_result resp = Inr (JObj body)"
    and "(case map_of body ''payment_details'' of None \<Rightarrow> JObj [] | Some v \<Rightarrow> v) = JObj pd"
  shows "payment_instruction parse resp =
     (let amount_str = (case map_of pd ''amount'' of None \<Rightarrow> JStr ''0'' | Some v \<Rightarrow> v);
          recipient = (case map_of pd ''recipient'' of None \<Rightarrow> JNull | Some v \<Rightarrow> v)
      in if \<not> truthy recipient then Inl (X402APIError (MissingRecipient (JObj body)))
         else (case py_float parse amount_str of
                 Inl e \<Rightarrow> Inl (Raised e)
               | Inr amount \<Rightarrow>
                   (case recipient of JStr r \<Rightarrow> Inr (amount, r)
                    | _ \<Rightarrow> Inl (Raised TypeError))))"
  using assms by (simp add: payment_instruction_def Let_def)

lemma payment_instruction_body_not_obj:
  assumes "json_result resp = Inr body" and "\<forall>kvs. body \<noteq> JObj kvs"
  shows "payment_instruction parse resp = Inl (Raised AttributeError)"
  using assms by (simp add: payment_instruction_def py_get_not_obj)

lemma payment_instruction_details_not_obj:
  assumes "json_result resp = Inr (JObj body)"
    and "map_of body ''payment_details'' = Some v" and "\<forall>kvs. v \<noteq> JObj kvs"
  shows "payment_instruction parse resp = Inl (Raised AttributeError)"
  using assms by (simp add: payment_instruction_def py_get_not_obj)

lemma payment_instruction_Inr_iff:
  "payment_instruction parse resp = Inr (a, r) \<longleftrightarrow>
     (\<exists>body pd. json_result resp = Inr (JObj body)
        \<and> (case map_of body ''payment_details'' of None \<Rightarrow> JObj [] | Some v \<Rightarrow> v) = JObj pd
        \<and> map_of pd ''recipient'' = Some (JStr r) \<and> r \<noteq> []
        \<and> py_float parse (case map_of pd ''amount'' of None \<Rightarrow> JStr ''0'' | Some v \<Rightarrow> v)
            = Inr a)"
  (is "?L \<longleftrightarrow> ?R")
proof (cases "json_result resp")
  case (Inl e)
  then show ?thesis by (simp add: payment_instruction_def)
next
  case (Inr b)
  show ?thesis
  proof (cases "\<exists>body. b = JObj body")
    case False
    then have "payment_instruction parse resp = Inl (Raised AttributeError)"
      using Inr by (intro payment_instruction_body_not_obj) auto
    then show ?thesis using Inr False by auto
  next
    case True
    then obtain body where b: "b = JObj body" by blast
    let ?v = "case map_of body ''payment_details'' of None \<Rightarrow> JObj [] | Some v \<Rightarrow> v"
    show ?thesis
    proof (cases "\<exists>pd. ?v = JObj pd")
      case False
      then obtain v where v: "map_of body ''payment_details'' = Some v" "\<forall>kvs. v \<noteq> JObj kvs"
        by (cases "map_of body ''payment_details''") auto
      have "payment_instruction parse resp = Inl (Raised AttributeError)"
        using Inr b v by (intro payment_instruction_details_not_obj) auto
      then show ?thesis using Inr b False by auto
    next
      case True
      then obtain pd where pd: "?v = JObj pd" by blast
      note pi = payment_instruction_obj [OF Inr [unfolded b] pd, of parse]
      let ?rc = "case map_of pd ''recipient'' of None \<Rightarrow> JNull | Some v \<Rightarrow> v"
      let ?am = "case map_of pd ''amount'' of None \<Rightarrow> JStr ''0'' | Some v \<Rightarrow> v"
      have R: "?R \<longleftrightarrow> map_of pd ''recipient'' = Some (JStr r) \<and> r \<noteq> []
                  \<and> py_float parse ?am = Inr a"
        using Inr b pd by auto
      have L: "?L \<longleftrightarrow> ?rc = JStr r \<and> r \<noteq> [] \<and> py_float parse ?am = Inr a"
        unfolding pi Let_def
        by (cases ?rc; cases "py_float parse ?am") auto
      have "?rc = JStr r \<longleftrightarrow> map_of pd ''recipient'' = Some (JStr r)"
        by (cases "map_of pd ''recipient''") auto
      with L R show ?thesis by simp
    qed
  qed
qed

lemma pay_mock_web3_ex:
  assumes "\<not> fgt (fadd (total_spent h) amount) (max_budget h)"
    and "raw_amount_of amount = Inr raw"
  shows "\<exists>cs. pay (mock_web3 tx) h amount r =
           (Inr tx, h\<lparr>total_spent := fadd (total_spent h) amount,
                      used_tx_hashes := insert tx (used_tx_hashes h)\<rparr>, cs)"
  using assms by (simp add: pay_def submit_transfer_def call_def mock_web3_def Let_def)

lemma request_402:
  assumes "t 0 (first_request c method path params json_body) = Inr resp"
    and "status_code resp = 402" and "payment c = Some h"
  shows "request t w parse c method path params json_body =
     (let req = first_request c method path params json_body
      in case payment_instruction parse resp of
           Inl err \<Rightarrow> (Inl err, c, [Request req])
         | Inr (amount, recipient) \<Rightarrow>
             (case pay w h amount recipient of
                (Inl err, h', cs) \<Rightarrow>
                  (Inl err, c\<lparr>payment := Some h'\<rparr>, [Request req, Pay amount recipient cs])
              | (Inr tx_hash, h', cs) \<Rightarrow>
                  (let req2 = req\<lparr>req_headers :=
                         [(''X-Payment-TxHash'', tx_hash),
                          (''X-Payment-Chain'', chain_key h')]\<rparr>;
                       c' = c\<lparr>payment := Some h'\<rparr>;
                       evs = [Request req, Pay amount recipient cs, Request req2]
                   in case t 1 req2 of
                        Inl e \<Rightarrow> (Inl (Raised e), c', evs)
                      | Inr resp2 \<Rightarrow> (return_response resp2, c', evs))))"
  using assms by (simp add: request_def Let_def)

lemma request_instruction_error:
  assumes "t 0 (first_request c method path params json_body) = Inr resp"
    and "status_code resp = 402" and "payment c = Some h"
    and "payment_instruction parse resp = Inl err"
  shows "request t w parse c method path params json_body =
           (Inl err, c, [Request (first_request c method path params json_body)])"
  using assms by (simp add: request_def Let_def)

lemma request_pay_events:
  assumes "t 0 (first_request c method path params json_body) = Inr resp"
    and "status_code resp = 402" and "payment c = Some h"
    and "payment_instruction parse resp = Inr (a, r)"
  shows "take 2 (snd (snd (request t w parse c method path params json_body))) =
           [Request (first_request c method path params json_body),
            Pay a r (snd (snd (pay w h a r)))]"
  unfolding request_402 [where t = t and w = w and parse = parse, OF assms(1-3)] Let_def assms(4)
  by (cases "pay w h a r" rule: prod_cases3)
     (auto split: sum.splits)

lemma request_no_pay_without_instruction:
  assumes "t 0 (first_request c method path params json_body) = Inr resp"
    and "status_code resp = 402" and "payment c = Some h"
    and "Pay a r cs \<in> set (snd (snd (request t w parse c method path params json_body)))"
  shows "payment_instruction parse resp = Inr (a, r)"
proof (cases "payment_instruction parse resp")
  case (Inl err)
  from request_instruction_error [where t = t and w = w, OF assms(1-3) Inl] assms(4) show ?thesis by simp
next
  case (Inr ar)
  obtain a' r' where ar: "ar = (a', r')" by (cases ar) auto
  from request_pay_events [where t = t and w = w, OF assms(1-3) Inr [unfolded ar]]
  have tk: "take 2 (snd (snd (request t w parse c method path params json_body))) =
          [Request (first_request c method path params json_body),
           Pay a' r' (snd (snd (pay w h a' r')))]" .
  have evs: "\<exists>rest. snd (snd (request t w parse c method path params json_body)) =
          Request (first_request c method path params json_body)
          # Pay a' r' (snd (snd (pay w h a' r'))) # rest \<and> (\<forall>e\<in>set rest. is_request e)"
    unfolding request_402 [where t = t and w = w and parse = parse, OF assms(1-3)] Let_def Inr ar
    by (cases "pay w h a' r'" rule: prod_cases3) (auto split: sum.splits)
  then obtain rest where
    "snd (snd (request t w parse c method path params json_body)) =
       Request (first_request c method path params json_body)
       # Pay a' r' (snd (snd (pay w h a' r'))) # rest" "\<forall>e\<in>set rest. is_request e"
    by blast
  with assms(4) have "a = a' \<and> r = r'" by auto
  then show ?thesis using Inr ar by simp
qed

lemma response_402_simps:
  "status_code (response_402 pd) = 402"
  "json_result (response_402 pd) =
     Inr (JObj [(''error'', JStr ''Payment required''), (''payment_details'', pd)])"
  "resp_text (response_402 pd) = ''Payment required''"
  by (simp_all add: response_402_def)

lemma chain_key_payment_handler: "chain_key (payment_handler b s) = ''base''"
  by (simp add: payment_handler_def)

lemma payment_of_client:
  "payment x402_client_with_payment = Some (payment_handler (Fin 10) (Fin 0))"
  by (simp add: x402_client_with_payment_def)

lemma first_request_fields:
  "req_method (first_request c method path params json_body) = method"
  "req_url (first_request c method path params json_body) = base_url c @ path"
  "req_params (first_request c method path params json_body) = params"
  "req_json (first_request c method path params json_body) = json_body"
  by (simp_all add: first_request_def)

text \<open>The three shapes a run of \<^verbatim>\<open>_request\<close> can take.\<close>

lemma request_shape:
  obtains (single) res c' where
      "request t w parse c method path params json_body =
         (res, c', [Request (first_request c method path params json_body)])"
  | (paid) err c' a r cs where
      "request t w parse c method path params json_body =
         (Inl err, c', [Request (first_request c method path params json_body), Pay a r cs])"
  | (retried) c' a r cs hs where
      "request t w parse c method path params json_body =
         ((case t 1 ((first_request c method path params json_body)\<lparr>req_headers := hs\<rparr>) of
             Inl e \<Rightarrow> Inl (Raised e) | Inr resp2 \<Rightarrow> return_response resp2), c',
          [Request (first_request c method path params json_body), Pay a r cs,
           Request ((first_request c method path params json_body)\<lparr>req_headers := hs\<rparr>)])"
proof -
  let ?req = "first_request c method path params json_body"
  show ?thesis
  proof (cases "t 0 ?req")
    case (Inl e)
    then have "request t w parse c method path params json_body = (Inl (Raised e), c, [Request ?req])"
      by (simp add: request_def Let_def)
    then show ?thesis by (rule single)
  next
    case (Inr resp)
    show ?thesis
    proof (cases "status_code resp = 402")
      case False
      then have "request t w parse c method path params json_body =
          (return_response resp, c, [Request ?req])"
        using Inr by (simp add: request_def Let_def)
      then show ?thesis by (rule single)
    next
      case True
      show ?thesis
      proof (cases "payment c")
        case None
        then have "request t w parse c method path params json_body =
            (Inl (X402APIError NoPrivateKey), c, [Request ?req])"
          using Inr True by (simp add: request_def Let_def)
        then show ?thesis by (rule single)
      next
        case (Some h)
        note r402 = request_402 [where t = t and w = w and parse = parse, OF Inr True Some]
        show ?thesis
        proof (cases "payment_instruction parse resp")
          case (Inl err)
          from request_instruction_error [where t = t and w = w, OF Inr True Some Inl]
          show ?thesis by (rule single)
        next
          case (Inr ar)
          obtain a r where ar: "ar = (a, r)" by (cases ar) auto
          obtain res h' cs where p: "pay w h a r = (res, h', cs)"
            by (cases "pay w h a r" rule: prod_cases3) auto
          show ?thesis
          proof (cases res)
            case (Inl err)
            have "request t w parse c method path params json_body =
                (Inl err, c\<lparr>payment := Some h'\<rparr>, [Request ?req, Pay a r cs])"
              unfolding r402 by (simp add: Inr ar p Inl)
            then show ?thesis by (rule paid)
          next
            case (Inr tx)
            let ?hs = "[(''X-Payment-TxHash'', tx), (''X-Payment-Chain'', chain_key h')]"
            have "request t w parse c method path params json_body =
                ((case t 1 (?req\<lparr>req_headers := ?hs\<rparr>) of
                    Inl e \<Rightarrow> Inl (Raised e) | Inr resp2 \<Rightarrow> return_response resp2),
                 c\<lparr>payment := Some h'\<rparr>,
                 [Request ?req, Pay a r cs, Request (?req\<lparr>req_headers := ?hs\<rparr>)])"
              unfolding r402 using \<open>payment_instruction parse resp = Inr ar\<close>
              by (simp add: ar p Inr Let_def split: sum.splits)
            then show ?thesis by (rule retried)
          qed
        qed
      qed
    qed
  qed
qed

section \<open>One retry\<close>

text \<open>
  Claim C4. Whatever the server, the ledger client and the arguments, one call of
  \<^verbatim>\<open>_request\<close> sends at most two HTTP requests and calls \<^verbatim>\<open>pay\<close> at most once.
  Every request it sends has the method, URL, parameters and body of the call. When
  it has sent the retry and the retry is answered with status 402 again, the call
  raises X402APIError "API error 402" with the text of that response: no second
  payment, no third request.
\<close>

theorem request_retries_at_most_once:
  "(case request t w parse c method path params json_body of
      (res, c', evs) \<Rightarrow>
        length (filter is_request evs) \<le> 2 \<and> length (filter is_pay evs) \<le> 1
        \<and> (\<forall>r. Request r \<in> set evs \<longrightarrow>
              req_method r = method \<and> req_url r = base_url c @ path
              \<and> req_params r = params \<and> req_json r = json_body)
        \<and> (\<forall>r1 p r2 resp2.
              evs = [Request r1, p, Request r2] \<and> t 1 r2 = Inr resp2
              \<and> status_code resp2 = 402
              \<longrightarrow> res = Inl (X402APIError (ApiError 402 (take 500 (resp_text resp2))))))"
proof (cases rule: request_shape [of t w parse c "method" "path" params json_body])
  case (single res c')
  then show ?thesis by (simp add: first_request_fields)
next
  case (paid err c' a r cs)
  then show ?thesis by (simp add: first_request_fields)
next
  case (retried c' a r cs hs)
  then show ?thesis
    by (auto simp: first_request_fields return_response_def)
qed


theorem request_retries_at_most_once_witness:
  "snd (snd (request
      (always_402 (JObj [(''amount'', JStr ''0.5''),
                         (''recipient'', JStr TEST_RECIPIENT_ADDRESS)]))
      (mock_web3 ''0xaa'') float_literal x402_client_with_payment
      ''GET'' ''/api/paid'' None None))
   = [Request (first_request x402_client_with_payment ''GET'' ''/api/paid'' None None),
      Pay (Fin (1 / 2)) TEST_RECIPIENT_ADDRESS
        (snd (snd (pay (mock_web3 ''0xaa'') (payment_handler (Fin 10) (Fin 0))
                     (Fin (1 / 2)) TEST_RECIPIENT_ADDRESS))),
      Request ((first_request x402_client_with_payment ''GET'' ''/api/paid'' None None)
                 \<lparr>req_headers := [(''X-Payment-TxHash'', ''0xaa''),
                                  (''X-Payment-Chain'', ''base'')]\<rparr>)]
   \<and> fst (request
      (always_402 (JObj [(''amount'', JStr ''0.5''),
                         (''recipient'', JStr TEST_RECIPIENT_ADDRESS)]))
      (mock_web3 ''0xaa'') float_literal x402_client_with_payment
      ''GET'' ''/api/paid'' None None)
   = Inl (X402APIError (ApiError 402 ''Payment required''))"
proof -
  let ?pd = "JObj [(''amount'', JStr ''0.5''), (''recipient'', JStr TEST_RECIPIENT_ADDRESS)]"
  let ?t = "always_402 ?pd"
  let ?h = "payment_handler (Fin 10) (Fin 0)"
  let ?c = x402_client_with_payment
  let ?r1 = "first_request ?c ''GET'' ''/api/paid'' None None"
  let ?r2 = "?r1\<lparr>req_headers := [(''X-Payment-TxHash'', ''0xaa''),
                                  (''X-Payment-Chain'', ''base'')]\<rparr>"
  let ?run = "request ?t (mock_web3 ''0xaa'') float_literal ?c ''GET'' ''/api/paid'' None None"
  have a: "\<not> fgt (fadd (total_spent ?h) (Fin (1 / 2))) (max_budget ?h)"
    by (simp add: payment_handler_def round64_half)
  from pay_mock_web3_ex [OF a raw_amount_of_half, of "''0xaa''" TEST_RECIPIENT_ADDRESS]
  obtain cs where p: "pay (mock_web3 ''0xaa'') ?h (Fin (1 / 2)) TEST_RECIPIENT_ADDRESS =
      (Inr ''0xaa'', ?h\<lparr>total_spent := fadd (total_spent ?h) (Fin (1 / 2)),
                         used_tx_hashes := insert ''0xaa'' (used_tx_hashes ?h)\<rparr>, cs)"
    by blast
  have i: "payment_instruction float_literal (response_402 ?pd)
             = Inr (Fin (1 / 2), TEST_RECIPIENT_ADDRESS)"
    by (simp add: payment_instruction_Inr_iff response_402_simps float_literal_def
        TEST_RECIPIENT_ADDRESS_def)
  have t0: "?t 0 ?r1 = Inr (response_402 ?pd)" by (simp add: always_402_def)
  have evs: "snd (snd ?run) = [Request ?r1, Pay (Fin (1 / 2)) TEST_RECIPIENT_ADDRESS cs,
      Request ?r2]"
    unfolding request_402 [where t = ?t, OF t0 response_402_simps(1) payment_of_client]
    by (simp add: i p always_402_def Let_def chain_key_payment_handler)
  have t1: "?t 1 ?r2 = Inr (response_402 ?pd)" by (simp add: always_402_def)
  obtain res0 c0 evs0 where run: "?run = (res0, c0, evs0)"
    by (cases ?run rule: prod_cases3)
  have e0: "evs0 = [Request ?r1, Pay (Fin (1 / 2)) TEST_RECIPIENT_ADDRESS cs, Request ?r2]"
    using evs unfolding run by simp
  have st: "status_code (response_402 ?pd) = 402" by (rule response_402_simps(1))
  note th = request_retries_at_most_once [of "''GET''" ?c "''/api/paid''" None None
        ?t "mock_web3 ''0xaa''" float_literal, unfolded run prod.case]
  note last = th [THEN conjunct2, THEN conjunct2, THEN conjunct2, rule_format,
        OF conjI [OF e0 conjI [OF t1 st]]]
  have res: "fst ?run = Inl (X402APIError (ApiError 402 (take 500 (resp_text (response_402 ?pd)))))"
    unfolding run using last by simp
  show ?thesis using evs res by (simp add: p response_402_simps)
qed

section \<open>Malformed payment instructions\<close>

text \<open>
  Claim C6. A 402 response whose payment details hold an amount that \<^verbatim>\<open>float\<close>
  cannot convert: with a handler configured and a recipient that is not empty,
  \<^verbatim>\<open>_request\<close> raises the exception of \<^verbatim>\<open>float\<close> itself (ValueError for a string
  that is no number: this is the MalformedAmount of the specification), leaves the
  client as it was and has sent the first request only. In every case, with or without
  a handler or a recipient, the call ends in an exception having sent the first
  request only: \<^verbatim>\<open>pay\<close> is not called.
\<close>

theorem unparseable_amount_raises_before_pay:
  assumes "t 0 (first_request c method path params json_body) = Inr resp"
    and "status_code resp = 402"
    and "json_result resp = Inr (JObj body)"
    and "map_of body ''payment_details'' = Some (JObj pd)"
    and "map_of pd ''amount'' = Some a"
    and "py_float parse a = Inl e"
  shows "(payment c = Some h \<and> map_of pd ''recipient'' = Some r \<and> truthy r
          \<longrightarrow> request t w parse c method path params json_body =
                (Inl (Raised e), c, [Request (first_request c method path params json_body)]))
       \<and> (\<exists>err. request t w parse c method path params json_body =
                (Inl err, c, [Request (first_request c method path params json_body)]))"
proof -
  note pi = payment_instruction_obj [where parse = parse, OF assms(3)]
  have pd: "(case map_of body ''payment_details'' of None \<Rightarrow> JObj [] | Some v \<Rightarrow> v) = JObj pd"
    using assms(4) by simp
  have fails: "\<exists>err. payment_instruction parse resp = Inl err"
    unfolding pi [OF pd] Let_def using assms(5,6) by simp
  have raised: "payment_instruction parse resp = Inl (Raised e)"
    if "map_of pd ''recipient'' = Some r" "truthy r"
    unfolding pi [OF pd] Let_def using assms(5,6) that by simp
  have 1: "request t w parse c method path params json_body =
             (Inl (Raised e), c, [Request (first_request c method path params json_body)])"
    if "payment c = Some h" "map_of pd ''recipient'' = Some r" "truthy r"
    using request_instruction_error [where t = t and w = w, OF assms(1,2) that(1) raised [OF that(2,3)]] .
  have 2: "\<exists>err. request t w parse c method path params json_body =
             (Inl err, c, [Request (first_request c method path params json_body)])"
  proof (cases "payment c")
    case None
    then show ?thesis using assms(1,2) by (simp add: request_def Let_def)
  next
    case (Some h')
    from fails obtain err where "payment_instruction parse resp = Inl err" by blast
    from request_instruction_error [where t = t and w = w, OF assms(1,2) Some this]
    show ?thesis by blast
  qed
  from 1 2 show ?thesis by blast
qed

theorem unparseable_amount_raises_before_pay_witness:
  "request
      (always_402 (JObj [(''amount'', JStr ''invalid''),
                         (''recipient'', JStr TEST_RECIPIENT_ADDRESS)]))
      (mock_web3 ''0xaa'') float_literal x402_client_with_payment
      ''GET'' ''/api/paid'' None None
   = (Inl (Raised ValueError), x402_client_with_payment,
      [Request (first_request x402_client_with_payment ''GET'' ''/api/paid'' None None)])"
proof -
  let ?pd = "[(''amount'', JStr ''invalid''), (''recipient'', JStr TEST_RECIPIENT_ADDRESS)]"
  let ?t = "always_402 (JObj ?pd)"
  have t0: "?t 0 (first_request x402_client_with_payment ''GET'' ''/api/paid'' None None)
      = Inr (response_402 (JObj ?pd))"
    by (simp add: always_402_def)
  have "payment x402_client_with_payment = Some (payment_handler (Fin 10) (Fin 0))
        \<and> map_of ?pd ''recipient'' = Some (JStr TEST_RECIPIENT_ADDRESS)
        \<and> truthy (JStr TEST_RECIPIENT_ADDRESS)"
    by (simp add: payment_of_client TEST_RECIPIENT_ADDRESS_def)
  moreover have "py_float float_literal (JStr ''invalid'') = Inl ValueError"
    by (simp add: float_literal_def)
  moreover have "map_of ?pd ''amount'' = Some (JStr ''invalid'')" by simp
  moreover have "map_of [(''error'', JStr ''Payment required''), (''payment_details'', JObj ?pd)]
      ''payment_details'' = Some (JObj ?pd)" by simp
  ultimately show ?thesis
    using unparseable_amount_raises_before_pay [where t = ?t and w = "mock_web3 ''0xaa''"
          and parse = float_literal and c = x402_client_with_payment
          and body = "[(''error'', JStr ''Payment required''), (''payment_details'', JObj ?pd)]"
          and pd = ?pd and r = "JStr TEST_RECIPIENT_ADDRESS" and a = "JStr ''invalid''"
          and e = ValueError and h = "payment_handler (Fin 10) (Fin 0)",
          OF t0 response_402_simps(1) response_402_simps(2)]
    by blast
qed


text \<open>
  Claim C7, as the code has it. For a 402 response whose body is a JSON object without
  \<^verbatim>\<open>payment_details\<close>, or with payment details that are an object whose recipient is
  missing or empty (any value Python takes for false), \<^verbatim>\<open>_request\<close> raises
  X402APIError, sends nothing after the first request and does not call \<^verbatim>\<open>pay\<close>: the
  error is "402 response missing recipient address", or the one about the private key
  when no handler is configured. And for every 402 response, \<^verbatim>\<open>pay\<close> is called only if
  the payment details are an object with a recipient that is a non-empty string and an
  amount that \<^verbatim>\<open>float\<close> converts (the string \<^verbatim>\<open>"0"\<close> standing for a missing amount).
\<close>

theorem missing_recipient_raises_api_error:
  assumes "t 0 (first_request c method path params json_body) = Inr resp"
    and "status_code resp = 402"
  shows "(json_result resp = Inr (JObj body)
          \<and> (map_of body ''payment_details'' = None
             \<or> (\<exists>pd. map_of body ''payment_details'' = Some (JObj pd)
                  \<and> \<not> truthy (case map_of pd ''recipient'' of None \<Rightarrow> JNull | Some v \<Rightarrow> v)))
          \<longrightarrow> request t w parse c method path params json_body =
                (Inl (X402APIError (if payment c = None then NoPrivateKey
                                    else MissingRecipient (JObj body))), c,
                 [Request (first_request c method path params json_body)]))
       \<and> (\<forall>a r cs. Pay a r cs \<in> set (snd (snd (request t w parse c method path params json_body)))
          \<longrightarrow> (\<exists>body pd. json_result resp = Inr (JObj body)
                \<and> (case map_of body ''payment_details'' of None \<Rightarrow> JObj [] | Some v \<Rightarrow> v)
                    = JObj pd
                \<and> map_of pd ''recipient'' = Some (JStr r) \<and> r \<noteq> []
                \<and> py_float parse (case map_of pd ''amount'' of None \<Rightarrow> JStr ''0'' | Some v \<Rightarrow> v)
                    = Inr a))"
proof (cases "payment c")
  case None
  then have "request t w parse c method path params json_body =
      (Inl (X402APIError NoPrivateKey), c,
       [Request (first_request c method path params json_body)])"
    using assms by (simp add: request_def Let_def)
  then show ?thesis using None by simp
next
  case (Some h)
  note err = request_instruction_error [where t = t and w = w and parse = parse,
      OF assms Some]
  have 1: "request t w parse c method path params json_body =
                (Inl (X402APIError (MissingRecipient (JObj body))), c,
                 [Request (first_request c method path params json_body)])"
    if b: "json_result resp = Inr (JObj body)"
      and m: "map_of body ''payment_details'' = None
             \<or> (\<exists>pd. map_of body ''payment_details'' = Some (JObj pd)
                  \<and> \<not> truthy (case map_of pd ''recipient'' of None \<Rightarrow> JNull | Some v \<Rightarrow> v))"
  proof -
    from m obtain pd where
      pd: "(case map_of body ''payment_details'' of None \<Rightarrow> JObj [] | Some v \<Rightarrow> v) = JObj pd"
      and nt: "\<not> truthy (case map_of pd ''recipient'' of None \<Rightarrow> JNull | Some v \<Rightarrow> v)"
      by auto
    have "payment_instruction parse resp = Inl (X402APIError (MissingRecipient (JObj body)))"
      unfolding payment_instruction_obj [where parse = parse, OF b pd] Let_def using nt by simp
    then show ?thesis by (rule err)
  qed
  have 3: "\<exists>body pd. json_result resp = Inr (JObj body)
                \<and> (case map_of body ''payment_details'' of None \<Rightarrow> JObj [] | Some v \<Rightarrow> v)
                    = JObj pd
                \<and> map_of pd ''recipient'' = Some (JStr r) \<and> r \<noteq> []
                \<and> py_float parse (case map_of pd ''amount'' of None \<Rightarrow> JStr ''0'' | Some v \<Rightarrow> v)
                    = Inr a"
    if "Pay a r cs \<in> set (snd (snd (request t w parse c method path params json_body)))"
    for a r cs
    using request_no_pay_without_instruction [where t = t and w = w, OF assms Some that]
    by (simp only: payment_instruction_Inr_iff)
  from 1 3 Some show ?thesis by (simp only: option.distinct if_False) blast
qed

theorem missing_recipient_raises_api_error_witness:
  "request (always_402 (JObj [(''amount'', JStr ''0.5'')]))
      (mock_web3 ''0xaa'') float_literal x402_client_with_payment
      ''GET'' ''/api/paid'' None None
   = (Inl (X402APIError (MissingRecipient
        (JObj [(''error'', JStr ''Payment required''),
               (''payment_details'', JObj [(''amount'', JStr ''0.5'')])]))),
      x402_client_with_payment,
      [Request (first_request x402_client_with_payment ''GET'' ''/api/paid'' None None)])"
proof -
  let ?pd = "[(''amount'', JStr ''0.5'')]"
  let ?body = "[(''error'', JStr ''Payment required''), (''payment_details'', JObj ?pd)]"
  let ?t = "always_402 (JObj ?pd)"
  have t0: "?t 0 (first_request x402_client_with_payment ''GET'' ''/api/paid'' None None)
      = Inr (response_402 (JObj ?pd))"
    by (simp add: always_402_def)
  have m: "json_result (response_402 (JObj ?pd)) = Inr (JObj ?body)
      \<and> (map_of ?body ''payment_details'' = None
         \<or> (\<exists>pd. map_of ?body ''payment_details'' = Some (JObj pd)
              \<and> \<not> truthy (case map_of pd ''recipient'' of None \<Rightarrow> JNull | Some v \<Rightarrow> v)))"
    by (simp add: response_402_simps)
  have p: "(if payment x402_client_with_payment = None then NoPrivateKey
            else MissingRecipient (JObj ?body)) = MissingRecipient (JObj ?body)"
    by (simp add: payment_of_client)
  from missing_recipient_raises_api_error [where t = ?t and w = "mock_web3 ''0xaa''"
      and parse = float_literal and body = ?body, OF t0 response_402_simps(1)]
    m
  show ?thesis unfolding p by blast
qed

text \<open>
  Malformed payment details do not always give X402APIError. An amount that is no
  number, with a recipient present (the input of \<^verbatim>\<open>test_402_invalid_amount\<close>), gives
  ValueError; payment details that are \<^verbatim>\<open>null\<close> give AttributeError.
\<close>

theorem malformed_details_raise_other_errors:
  "request (always_402 (JObj [(''amount'', JStr ''invalid''),
                              (''recipient'', JStr TEST_RECIPIENT_ADDRESS)]))
      (mock_web3 ''0xaa'') float_literal x402_client_with_payment
      ''GET'' ''/api/paid'' None None
   = (Inl (Raised ValueError), x402_client_with_payment,
      [Request (first_request x402_client_with_payment ''GET'' ''/api/paid'' None None)])
   \<and> request (always_402 JNull)
      (mock_web3 ''0xaa'') float_literal x402_client_with_payment
      ''GET'' ''/api/paid'' None None
   = (Inl (Raised AttributeError), x402_client_with_payment,
      [Request (first_request x402_client_with_payment ''GET'' ''/api/paid'' None None)])"
proof -
  let ?pd = "[(''amount'', JStr ''invalid''), (''recipient'', JStr TEST_RECIPIENT_ADDRESS)]"
  let ?r1 = "first_request x402_client_with_payment ''GET'' ''/api/paid'' None None"
  have t0: "always_402 pd 0 ?r1 = Inr (response_402 pd)" for pd
    by (simp add: always_402_def)
  have i1: "payment_instruction float_literal (response_402 (JObj ?pd)) = Inl (Raised ValueError)"
    by (simp add: payment_instruction_def response_402_simps float_literal_def
        TEST_RECIPIENT_ADDRESS_def)
  have i2: "payment_instruction float_literal (response_402 JNull) = Inl (Raised AttributeError)"
    by (simp add: payment_instruction_def response_402_simps)
  show ?thesis
    using request_instruction_error [where t = "always_402 (JObj ?pd)"
        and w = "mock_web3 ''0xaa''", OF t0 response_402_simps(1) payment_of_client i1]
      request_instruction_error [where t = "always_402 JNull"
        and w = "mock_web3 ''0xaa''", OF t0 response_402_simps(1) payment_of_client i2]
    by simp
qed

lemma raw_amount_of_zero: "raw_amount_of (Fin 0) = Inr 0"
  by (simp add: raw_amount_of_def round64_zero)

text \<open>
  Claim C10. A 402 response whose payment details are an object with a recipient (a
  non-empty string) and no amount, with a handler configured, and \<^verbatim>\<open>float("0")\<close>
  being \<^verbatim>\<open>0.0\<close>: the amount read is \<^verbatim>\<open>0.0\<close>, no error is raised for the missing
  amount, and the second event of \<^verbatim>\<open>_request\<close> is the call of \<^verbatim>\<open>pay\<close> with \<^verbatim>\<open>0.0\<close>
  and the recipient. When the budget check passes, the address is accepted and the
  ledger client answers each call, that call of \<^verbatim>\<open>pay\<close> builds, signs and sends a
  transfer of 0 raw units to the recipient and waits for its receipt: its ledger calls
  are the eight listed, and on a receipt of status 1 it returns the hash.
\<close>

theorem missing_amount_defaults_to_zero:
  assumes "t 0 (first_request c method path params json_body) = Inr resp"
    and "status_code resp = 402"
    and "payment c = Some h"
    and "json_result resp = Inr (JObj body)"
    and "map_of body ''payment_details'' = Some (JObj pd)"
    and "map_of pd ''recipient'' = Some (JStr r)" and "r \<noteq> []"
    and "map_of pd ''amount'' = None"
    and "parse ''0'' = Some (Fin 0)"
  shows "payment_instruction parse resp = Inr (Fin 0, r)
       \<and> take 2 (snd (snd (request t w parse c method path params json_body))) =
           [Request (first_request c method path params json_body),
            Pay (Fin 0) r (snd (snd (pay w h (Fin 0) r)))]
       \<and> (\<not> fgt (fadd (total_spent h) (Fin 0)) (max_budget h)
            \<and> to_checksum_address w r = Inr addr
            \<and> get_transaction_count w (account_address h) = Inr n
            \<and> transfer w addr 0 = Inr fn
            \<and> gas_price w = Inr gp \<and> max_priority_fee w = Inr mpf
            \<and> build_transaction w fn
                 \<lparr>tx_from = account_address h, nonce = n, chainId = chain_id (config h),
                    gas = 100000, maxFeePerGas = gp * 2, maxPriorityFeePerGas = mpf\<rparr> = Inr tx
            \<and> sign_transaction w tx (account_key h) = Inr signed
            \<and> send_raw_transaction w signed = Inr tx_hex
          \<longrightarrow> snd (snd (pay w h (Fin 0) r)) =
                [GetTransactionCount (account_address h), TransferCall addr 0,
                 GasPrice, MaxPriorityFee,
                 BuildTransaction fn
                   \<lparr>tx_from = account_address h, nonce = n, chainId = chain_id (config h),
                      gas = 100000, maxFeePerGas = gp * 2, maxPriorityFeePerGas = mpf\<rparr>,
                 SignTransaction tx (account_key h), SendRawTransaction signed,
                 WaitForTransactionReceipt tx_hex 60]
              \<and> (wait_for_transaction_receipt w tx_hex 60 = Inr 1
                   \<longrightarrow> fst (pay w h (Fin 0) r) = Inr tx_hex))"
proof -
  have i: "payment_instruction parse resp = Inr (Fin 0, r)"
    unfolding payment_instruction_Inr_iff using assms(4-9) by simp
  note ev = request_pay_events [where t = t and w = w, OF assms(1-3) i]
  let ?params = "\<lparr>tx_from = account_address h, nonce = n, chainId = chain_id (config h),
                    gas = 100000, maxFeePerGas = gp * 2, maxPriorityFeePerGas = mpf\<rparr>"
  let ?cs = "[GetTransactionCount (account_address h), TransferCall addr 0,
                 GasPrice, MaxPriorityFee, BuildTransaction fn ?params,
                 SignTransaction tx (account_key h), SendRawTransaction signed,
                 WaitForTransactionReceipt tx_hex 60]"
  have p: "snd (snd (pay w h (Fin 0) r)) = ?cs
           \<and> (wait_for_transaction_receipt w tx_hex 60 = Inr 1
                \<longrightarrow> fst (pay w h (Fin 0) r) = Inr tx_hex)"
    if b: "\<not> fgt (fadd (total_spent h) (Fin 0)) (max_budget h)"
      and a: "to_checksum_address w r = Inr addr"
      and l: "get_transaction_count w (account_address h) = Inr n"
        "transfer w addr 0 = Inr fn" "gas_price w = Inr gp" "max_priority_fee w = Inr mpf"
        "build_transaction w fn ?params = Inr tx"
        "sign_transaction w tx (account_key h) = Inr signed"
        "send_raw_transaction w signed = Inr tx_hex"
  proof -
    have s: "submit_transfer w h addr 0 =
        (?cs, case wait_for_transaction_receipt w tx_hex 60 of
                Inl e \<Rightarrow> Inl e | Inr status \<Rightarrow> Inr (tx_hex, status))"
      using l by (simp add: submit_transfer_def call_def Let_def split: sum.splits)
    show ?thesis
      unfolding pay_def using b
      by (simp add: raw_amount_of_zero a s split: sum.splits)
  qed
  from i ev p show ?thesis by blast
qed

theorem missing_amount_defaults_to_zero_witness:
  "payment_instruction float_literal
      (response_402 (JObj [(''recipient'', JStr TEST_RECIPIENT_ADDRESS)]))
     = Inr (Fin 0, TEST_RECIPIENT_ADDRESS)
   \<and> take 2 (snd (snd (request
        (always_402 (JObj [(''recipient'', JStr TEST_RECIPIENT_ADDRESS)]))
        (mock_web3 ''0xaa'') float_literal x402_client_with_payment
        ''GET'' ''/api/paid'' None None)))
     = [Request (first_request x402_client_with_payment ''GET'' ''/api/paid'' None None),
        Pay (Fin 0) TEST_RECIPIENT_ADDRESS
          (snd (snd (pay (mock_web3 ''0xaa'') (payment_handler (Fin 10) (Fin 0)) (Fin 0)
                       TEST_RECIPIENT_ADDRESS)))]
   \<and> snd (snd (pay (mock_web3 ''0xaa'') (payment_handler (Fin 10) (Fin 0)) (Fin 0)
                  TEST_RECIPIENT_ADDRESS))
     = [GetTransactionCount TEST_WALLET_ADDRESS, TransferCall TEST_RECIPIENT_ADDRESS 0,
        GasPrice, MaxPriorityFee,
        BuildTransaction (Transfer TEST_RECIPIENT_ADDRESS 0)
          \<lparr>tx_from = TEST_WALLET_ADDRESS, nonce = 42, chainId = 8453, gas = 100000,
             maxFeePerGas = 2000000000, maxPriorityFeePerGas = 1000000000\<rparr>,
        SignTransaction ''tx'' ''0xaa'', SendRawTransaction ''signed'',
        WaitForTransactionReceipt ''0xaa'' 60]
   \<and> fst (pay (mock_web3 ''0xaa'') (payment_handler (Fin 10) (Fin 0)) (Fin 0)
             TEST_RECIPIENT_ADDRESS) = Inr ''0xaa''"
proof -
  let ?pd = "[(''recipient'', JStr TEST_RECIPIENT_ADDRESS)]"
  let ?body = "[(''error'', JStr ''Payment required''), (''payment_details'', JObj ?pd)]"
  let ?t = "always_402 (JObj ?pd)"
  let ?h = "payment_handler (Fin 10) (Fin 0)"
  let ?w = "mock_web3 ''0xaa''"
  have t0: "?t 0 (first_request x402_client_with_payment ''GET'' ''/api/paid'' None None)
      = Inr (response_402 (JObj ?pd))"
    by (simp add: always_402_def)
  have b: "map_of ?body ''payment_details'' = Some (JObj ?pd)" by simp
  have r: "map_of ?pd ''recipient'' = Some (JStr TEST_RECIPIENT_ADDRESS)" by simp
  have ne: "TEST_RECIPIENT_ADDRESS \<noteq> []" by (simp add: TEST_RECIPIENT_ADDRESS_def)
  have a: "map_of ?pd ''amount'' = None" by simp
  have z: "float_literal ''0'' = Some (Fin 0)" by (simp add: float_literal_def)
  note th = missing_amount_defaults_to_zero [where t = ?t and w = ?w and parse = float_literal
      and addr = TEST_RECIPIENT_ADDRESS and n = 42
      and fn = "Transfer TEST_RECIPIENT_ADDRESS 0" and gp = 1000000000 and mpf = 1000000000
      and tx = "''tx''" and signed = "''signed''" and tx_hex = "''0xaa''",
      OF t0 response_402_simps(1) payment_of_client response_402_simps(2) b r ne a z]
  have g: "\<not> fgt (fadd (total_spent ?h) (Fin 0)) (max_budget ?h)
      \<and> to_checksum_address ?w TEST_RECIPIENT_ADDRESS = Inr TEST_RECIPIENT_ADDRESS
      \<and> get_transaction_count ?w (account_address ?h) = Inr 42
      \<and> transfer ?w TEST_RECIPIENT_ADDRESS 0 = Inr (Transfer TEST_RECIPIENT_ADDRESS 0)
      \<and> gas_price ?w = Inr 1000000000 \<and> max_priority_fee ?w = Inr 1000000000
      \<and> build_transaction ?w (Transfer TEST_RECIPIENT_ADDRESS 0)
           \<lparr>tx_from = account_address ?h, nonce = 42, chainId = chain_id (config ?h),
              gas = 100000, maxFeePerGas = 1000000000 * 2,
              maxPriorityFeePerGas = 1000000000\<rparr> = Inr ''tx''
      \<and> sign_transaction ?w ''tx'' (account_key ?h) = Inr ''signed''
      \<and> send_raw_transaction ?w ''signed'' = Inr ''0xaa''"
    by (simp add: payment_handler_def round64_zero mock_web3_def)
  have w1: "wait_for_transaction_receipt ?w ''0xaa'' 60 = Inr 1" by (simp add: mock_web3_def)
  have f: "account_address ?h = TEST_WALLET_ADDRESS" "account_key ?h = ''0xaa''"
    "chain_id (config ?h) = 8453"
    by (simp_all add: payment_handler_def CHAIN_CONFIGS_def)
  from th g w1 have
    "payment_instruction float_literal (response_402 (JObj ?pd)) = Inr (Fin 0, TEST_RECIPIENT_ADDRESS)
     \<and> take 2 (snd (snd (request ?t ?w float_literal x402_client_with_payment
                          ''GET'' ''/api/paid'' None None)))
       = [Request (first_request x402_client_with_payment ''GET'' ''/api/paid'' None None),
          Pay (Fin 0) TEST_RECIPIENT_ADDRESS (snd (snd (pay ?w ?h (Fin 0) TEST_RECIPIENT_ADDRESS)))]
     \<and> snd (snd (pay ?w ?h (Fin 0) TEST_RECIPIENT_ADDRESS)) =
        [GetTransactionCount (account_address ?h), TransferCall TEST_RECIPIENT_ADDRESS 0,
         GasPrice, MaxPriorityFee,
         BuildTransaction (Transfer TEST_RECIPIENT_ADDRESS 0)
           \<lparr>tx_from = account_address ?h, nonce = 42, chainId = chain_id (config ?h),
              gas = 100000, maxFeePerGas = 1000000000 * 2,
              maxPriorityFeePerGas = 1000000000\<rparr>,
         SignTransaction ''tx'' (account_key ?h), SendRawTransaction ''signed'',
         WaitForTransactionReceipt ''0xaa'' 60]
     \<and> fst (pay ?w ?h (Fin 0) TEST_RECIPIENT_ADDRESS) = Inr ''0xaa''"
    by blast
  then show ?thesis unfolding f by simp
qed

end
